theory Spec2Isabelle
  imports Complex_Main "HOL-Library.Log_Nat"
begin

section \<open>Scalar gradient descent (01-gradient\_descent/GradientDescent.ipynb)\<close>

text \<open>
  The notebook's one piece of algorithmic code is
  \<^verbatim>\<open>
  def gradient_descent(
          derivative_of_f, *, h_0, alpha, max_iter=10_000, tol=1e-12, verbose=False,
          callback=None
      ):
      h = h_0
      for iteration in range(max_iter):
          h_next = h - alpha * derivative_of_f(h)
          if np.abs(h_next - h) < tol:
              break
          if verbose:
              print(f'iter #{iteration}: h={h_next}')
          if callback is not None:
              callback(h_next)
          h = h_next
      else:
          if verbose:
              print('Reached Max Iters')
      return h
  \<close>
  The embedding keeps the numeric type open: the loop only subtracts, multiplies, takes an
  absolute value and compares with \<open><\<close>, so it is written over any type that has these
      four
  operations, and the lemmas about its control flow use no law of arithmetic at all: they
  hold for the floats of the program as they do for exact numbers.

  Where a statement depends on what the numbers are, it is made over the type \<open>double\<close>
  defined below, the IEEE 754 binary64 numbers that Python's \<^verbatim>\<open>float\<close> and
      numpy's
  \<^verbatim>\<open>float64\<close> are: every result is rounded to the nearest representable
      number, ties to
  even, with gradual underflow, overflow to an infinity, and NaN. One counterexample (to C7)
  speaks about all small step sizes at once and is computed over \<^typ>\<open>real\<close>, in
      exact
  arithmetic.

  Everything the function does besides returning a value is written into a \<open>world\<close> that
  is passed through the call:
  \<^item> \<open>stdout\<close>: the lines printed when \<open>verbose\<close> is set, in order;
  \<^item> \<open>caller\<close>: the state of the caller, which is all a callback may change;
  \<^item> \<open>evals\<close>: how often \<open>derivative_of_f\<close> has been called (a
      counter that the source
    does not have; it makes "evaluates the derivative" a statement about the model).
  In \<open>gradient_descent\<close> the derivative is a function of \<open>h\<close> and the
      callback a
  transformer of the caller's state, and the callback does not change what the derivative
  returns. \<open>gradient_descent_exc\<close> is the same code with callables that may raise.
\<close>

subsection \<open>Data\<close>

text \<open>
  A printed line: \<^verbatim>\<open>iter #{iteration}: h={h_next}\<close> or
      \<^verbatim>\<open>Reached Max Iters\<close>. The number
  is kept as a value (how Python formats a float is not part of the model).
\<close>

datatype 'a line = Iter_line nat 'a | Reached_Max_Iters

record ('a, 's) world =
  stdout :: "'a line list"
  caller :: 's
  evals :: nat


text \<open>\<open>range(max_iter)\<close>: the indices \<open>0, ..., max_iter - 1\<close>, none
    when \<open>max_iter \<le> 0\<close>.\<close>

definition range_py :: "int \<Rightarrow> nat list" where
  "range_py n = [0..<nat n]"

subsection \<open>The loop and the function\<close>

text \<open>
  The \<^verbatim>\<open>for\<close> loop, as a recursion over the indices still to run. The first
      component of
  the result says whether the loop was left by \<^verbatim>\<open>break\<close>: the
      \<^verbatim>\<open>else\<close> branch of a Python
  \<^verbatim>\<open>for\<close> runs exactly when it was not.
\<close>

fun gd_loop ::
  "('a::{minus,times,abs,ord} \<Rightarrow> 'a) \<Rightarrow> 'a \<Rightarrow> 'a \<Rightarrow>
      bool \<Rightarrow> ('a \<Rightarrow> 's \<Rightarrow> 's) option \<Rightarrow>
     nat list \<Rightarrow> 'a \<Rightarrow> ('a, 's) world \<Rightarrow> bool \<times> 'a
         \<times> ('a, 's) world" where
  "gd_loop derivative_of_f alpha tol verbose callback [] h w = (False, h, w)"
| "gd_loop derivative_of_f alpha tol verbose callback (iteration # rest) h w =
     (let w1 = w\<lparr>evals := Suc (evals w)\<rparr>;
          h_next = h - alpha * derivative_of_f h
      in if \<bar>h_next - h\<bar> < tol then (True, h, w1)
         else
           let w2 = (if verbose
                     then w1\<lparr>stdout := stdout w1 @ [Iter_line iteration h_next]\<rparr>
                     else w1);
               w3 = (case callback of
                       None \<Rightarrow> w2
                     | Some cb \<Rightarrow> w2\<lparr>caller := cb h_next (caller w2)\<rparr>)
           in gd_loop derivative_of_f alpha tol verbose callback rest h_next w3)"

definition gradient_descent ::
  "('a::{minus,times,abs,ord} \<Rightarrow> 'a) \<Rightarrow> 'a \<Rightarrow> 'a \<Rightarrow>
      int \<Rightarrow> 'a \<Rightarrow> bool \<Rightarrow>
     ('a \<Rightarrow> 's \<Rightarrow> 's) option \<Rightarrow> ('a, 's) world \<Rightarrow> 'a
         \<times> ('a, 's) world" where
  "gradient_descent derivative_of_f h_0 alpha max_iter tol verbose callback w =
     (case gd_loop derivative_of_f alpha tol verbose callback (range_py max_iter) h_0 w of
        (broke, h, w') \<Rightarrow>
          (h, if \<not> broke \<and> verbose
              then w'\<lparr>stdout := stdout w' @ [Reached_Max_Iters]\<rparr>
              else w'))"

subsection \<open>The function with callables that may raise\<close>

text \<open>
  The source has no \<^verbatim>\<open>raise\<close> of its own, and subtraction, multiplication,
      \<^verbatim>\<open>np.abs\<close> and
  \<open><\<close> on floats do not raise either (an overflow gives an infinity, an undefined result
  NaN). An exception can only come out of \<open>derivative_of_f\<close> or out of the callback,
      and then
  it leaves the function at once: the result is \<open>Inl\<close> of the exception. The body is the
  one of \<open>gd_loop\<close> otherwise.
\<close>

fun gd_loop_exc ::
  "('a::{minus,times,abs,ord} \<Rightarrow> 'e + 'a) \<Rightarrow> 'a \<Rightarrow> 'a
      \<Rightarrow> bool \<Rightarrow>
     ('a \<Rightarrow> 's \<Rightarrow> 'e + 's) option \<Rightarrow> nat list \<Rightarrow> 'a
         \<Rightarrow> ('a, 's) world \<Rightarrow>
     'e + bool \<times> 'a \<times> ('a, 's) world" where
  "gd_loop_exc derivative_of_f alpha tol verbose callback [] h w = Inr (False, h, w)"
| "gd_loop_exc derivative_of_f alpha tol verbose callback (iteration # rest) h w =
     (case derivative_of_f h of
        Inl e \<Rightarrow> Inl e
      | Inr d \<Rightarrow>
          let w1 = w\<lparr>evals := Suc (evals w)\<rparr>;
              h_next = h - alpha * d
          in if \<bar>h_next - h\<bar> < tol then Inr (True, h, w1)
             else
               let w2 = (if verbose
                         then w1\<lparr>stdout := stdout w1 @ [Iter_line iteration h_next]\<rparr>
                         else w1)
               in case callback of
                    None \<Rightarrow> gd_loop_exc derivative_of_f alpha tol verbose callback rest
                        h_next w2
                  | Some cb \<Rightarrow>
                      (case cb h_next (caller w2) of
                         Inl e \<Rightarrow> Inl e
                       | Inr s \<Rightarrow>
                           gd_loop_exc derivative_of_f alpha tol verbose callback rest h_next
                             (w2\<lparr>caller := s\<rparr>)))"

definition gradient_descent_exc ::
  "('a::{minus,times,abs,ord} \<Rightarrow> 'e + 'a) \<Rightarrow> 'a \<Rightarrow> 'a
      \<Rightarrow> int \<Rightarrow> 'a \<Rightarrow> bool \<Rightarrow>
     ('a \<Rightarrow> 's \<Rightarrow> 'e + 's) option \<Rightarrow> ('a, 's) world \<Rightarrow>
         'e + 'a \<times> ('a, 's) world" where
  "gradient_descent_exc derivative_of_f h_0 alpha max_iter tol verbose callback w =
     (case gd_loop_exc derivative_of_f alpha tol verbose callback (range_py max_iter) h_0 w of
        Inl e \<Rightarrow> Inl e
      | Inr (broke, h, w') \<Rightarrow>
          Inr (h, if \<not> broke \<and> verbose
                  then w'\<lparr>stdout := stdout w' @ [Reached_Max_Iters]\<rparr>
                  else w'))"

text \<open>A callable that never raises, seen as one that may.\<close>

definition returning :: "('a \<Rightarrow> 'b) \<Rightarrow> 'a \<Rightarrow> 'e + 'b" where
  "returning f x = Inr (f x)"

definition returning_callback ::
  "('a \<Rightarrow> 's \<Rightarrow> 's) option \<Rightarrow> ('a \<Rightarrow> 's \<Rightarrow>
      'e + 's) option" where
  "returning_callback callback = map_option (\<lambda>cb x s. Inr (cb x s)) callback"

subsection \<open>Notions the statements use\<close>

text \<open>
  The update map \<open>h \<mapsto> h - alpha * derivative_of_f h\<close>, its
      \<open>k\<close>-fold iterate from a
  starting point, and the convergence check at a point.
\<close>

definition gd_update :: "('a::{minus,times} \<Rightarrow> 'a) \<Rightarrow> 'a \<Rightarrow> 'a
    \<Rightarrow> 'a" where
  "gd_update derivative_of_f alpha h = h - alpha * derivative_of_f h"

definition candidate :: "('a::{minus,times} \<Rightarrow> 'a) \<Rightarrow> 'a \<Rightarrow> 'a
    \<Rightarrow> nat \<Rightarrow> 'a" where
  "candidate derivative_of_f alpha h_0 k = (gd_update derivative_of_f alpha ^^ k) h_0"

definition check_passes :: "('a::{minus,times,abs,ord} \<Rightarrow> 'a) \<Rightarrow> 'a
    \<Rightarrow> 'a \<Rightarrow> 'a \<Rightarrow> bool" where
  "check_passes derivative_of_f alpha tol h \<longleftrightarrow>
     \<bar>gd_update derivative_of_f alpha h - h\<bar> < tol"

text \<open>
  The derivative of the quadratic bowl \<open>(h - c)\<^sup>2\<close>, the linear derivative that
      the testable
  properties are stated for. The notebook's
      \<^verbatim>\<open>derivative_of_mean_squared_error\<close>,
  \<^verbatim>\<open>2 * np.mean(h - SALARIES)\<close>, is this function with \<open>c\<close> the
      mean salary.
\<close>

definition bowl_derivative :: "real \<Rightarrow> real \<Rightarrow> real" where
  "bowl_derivative c h = 2 * (h - c)"

text \<open>A callback that records its arguments, in the order of the calls.\<close>

definition recording :: "'a \<Rightarrow> 'a list \<Rightarrow> 'a list" where
  "recording x seen = seen @ [x]"

definition fresh :: "('a, 'a list) world" where
  "fresh = \<lparr>stdout = [], caller = [], evals = 0\<rparr>"

subsection \<open>Double-precision numbers\<close>

text \<open>
  A double is a finite number, an infinity or NaN. Finite values are kept as rationals; the
  operations only ever produce representable ones, that is, \<open>m * 2 ^ e\<close> with
      \<open>\<bar>m\<bar> < 2 ^ 53\<close>
  and \<open>-1074 \<le> e \<le> 971\<close>. The sign of a zero is not kept: \<open>-\<close>,
      \<open>*\<close>, \<^verbatim>\<open>abs\<close> and \<open><\<close> give
  the same number or truth value for \<open>-0.0\<close> as for \<open>0.0\<close>; only the sign
      of a zero result
  can differ.
\<close>

datatype double = Finite rat | PInf | NInf | NaN

text \<open>
  \<open>exponent x\<close> is \<open>\<lfloor>log\<^sub>2 \<bar>x\<bar>\<rfloor>\<close> for
      \<open>x \<noteq> 0\<close> (lemma \<open>exponent_bounds\<close>), computed from the
  bit lengths of numerator and denominator.
\<close>

definition exponent :: "rat \<Rightarrow> int" where
  "exponent x =
     (case quotient_of \<bar>x\<bar> of
        (p, q) \<Rightarrow> let d = bitlen p - bitlen q in if 2 powi d \<le> \<bar>x\<bar> then d
            else d - 1)"

text \<open>Rounding to the nearest integer, a tie to the even one.\<close>

definition round_half_even :: "rat \<Rightarrow> int" where
  "round_half_even x =
     (let n = \<lfloor>x\<rfloor>; r = x - of_int n
      in if r < 1 / 2 then n else if 1 / 2 < r then n + 1 else if even n then n else n + 1)"

text \<open>
  \<open>rnd x\<close> is the double nearest to the rational \<open>x\<close>: \<open>x\<close> is
      rounded to a multiple of
  \<open>2 ^ e\<close>, where \<open>e\<close> leaves 53 significant bits and is at least
      \<open>-1074\<close> (subnormal
  numbers have fewer bits); a result of magnitude \<open>2 ^ 1024\<close> or more is an infinity.
      This is
  also how Python reads a decimal literal: \<^verbatim>\<open>1.1\<close> is \<open>rnd (11 /
      10)\<close>.
\<close>

definition rnd :: "rat \<Rightarrow> double" where
  "rnd x =
     (if x = 0 then Finite 0
      else
        let e = max (exponent x - 52) (- 1074);
            y = of_int (round_half_even (x / 2 powi e)) * 2 powi e
        in if 2 ^ 1024 \<le> y then PInf else if y \<le> - (2 ^ 1024) then NInf else Finite y)"

text \<open>
  The four operations of the loop, with the special cases of IEEE 754: NaN propagates,
  \<open>\<infinity> - \<infinity>\<close> and \<open>0 * \<infinity>\<close> are NaN, and every
      comparison with NaN is false.
\<close>

fun double_sub :: "double \<Rightarrow> double \<Rightarrow> double" where
  "double_sub (Finite x) (Finite y) = rnd (x - y)"
| "double_sub NaN _ = NaN"
| "double_sub _ NaN = NaN"
| "double_sub PInf PInf = NaN"
| "double_sub NInf NInf = NaN"
| "double_sub PInf _ = PInf"
| "double_sub NInf _ = NInf"
| "double_sub (Finite x) PInf = NInf"
| "double_sub (Finite x) NInf = PInf"

fun double_mul :: "double \<Rightarrow> double \<Rightarrow> double" where
  "double_mul (Finite x) (Finite y) = rnd (x * y)"
| "double_mul NaN _ = NaN"
| "double_mul _ NaN = NaN"
| "double_mul PInf (Finite y) = (if y = 0 then NaN else if 0 < y then PInf else NInf)"
| "double_mul NInf (Finite y) = (if y = 0 then NaN else if 0 < y then NInf else PInf)"
| "double_mul (Finite x) PInf = (if x = 0 then NaN else if 0 < x then PInf else NInf)"
| "double_mul (Finite x) NInf = (if x = 0 then NaN else if 0 < x then NInf else PInf)"
| "double_mul PInf PInf = PInf"
| "double_mul NInf NInf = PInf"
| "double_mul PInf NInf = NInf"
| "double_mul NInf PInf = NInf"

fun double_abs :: "double \<Rightarrow> double" where
  "double_abs (Finite x) = Finite \<bar>x\<bar>"
| "double_abs PInf = PInf"
| "double_abs NInf = PInf"
| "double_abs NaN = NaN"

fun double_less :: "double \<Rightarrow> double \<Rightarrow> bool" where
  "double_less (Finite x) (Finite y) \<longleftrightarrow> x < y"
| "double_less NaN _ \<longleftrightarrow> False"
| "double_less _ NaN \<longleftrightarrow> False"
| "double_less _ NInf \<longleftrightarrow> False"
| "double_less NInf _ \<longleftrightarrow> True"
| "double_less PInf _ \<longleftrightarrow> False"
| "double_less (Finite x) PInf \<longleftrightarrow> True"

fun double_less_eq :: "double \<Rightarrow> double \<Rightarrow> bool" where
  "double_less_eq (Finite x) (Finite y) \<longleftrightarrow> x \<le> y"
| "double_less_eq NaN _ \<longleftrightarrow> False"
| "double_less_eq _ NaN \<longleftrightarrow> False"
| "double_less_eq NInf _ \<longleftrightarrow> True"
| "double_less_eq _ PInf \<longleftrightarrow> True"
| "double_less_eq PInf _ \<longleftrightarrow> False"
| "double_less_eq (Finite x) NInf \<longleftrightarrow> False"

instantiation double :: "{minus,times,abs,ord}"
begin

definition minus_double :: "double \<Rightarrow> double \<Rightarrow> double" where
  "minus_double x y = double_sub x y"

definition times_double :: "double \<Rightarrow> double \<Rightarrow> double" where
  "times_double x y = double_mul x y"

definition abs_double :: "double \<Rightarrow> double" where
  "abs_double x = double_abs x"

definition less_double :: "double \<Rightarrow> double \<Rightarrow> bool" where
  "less_double x y \<longleftrightarrow> double_less x y"

definition less_eq_double :: "double \<Rightarrow> double \<Rightarrow> bool" where
  "less_eq_double x y \<longleftrightarrow> double_less_eq x y"

instance ..

end

text \<open>
  The bowl's derivative \<^verbatim>\<open>2 * (h - c)\<close> on doubles, and the default
      \<^verbatim>\<open>tol=1e-12\<close>, which is
  the double nearest to \<open>10\<^sup>-\<^sup>1\<^sup>2\<close> and not
      \<open>10\<^sup>-\<^sup>1\<^sup>2\<close> itself (lemma \<open>default_tol_value\<close>).
\<close>

definition bowl_double :: "rat \<Rightarrow> double \<Rightarrow> double" where
  "bowl_double c h = Finite 2 * (h - Finite c)"

definition default_tol :: double where
  "default_tol = rnd (1 / 10 ^ 12)"

section \<open>Properties\<close>

subsection \<open>The update map and its iterates\<close>

lemma candidate_0: "candidate f a h 0 = h"
  by (simp add: candidate_def)

lemma candidate_Suc: "candidate f a h (Suc k) = gd_update f a (candidate f a h k)"
  by (simp add: candidate_def)

lemma candidate_shift: "candidate f a (gd_update f a h) k = candidate f a h (Suc k)"
  by (simp add: candidate_def funpow_swap1)

lemma candidate_add: "candidate f a (candidate f a h m) n = candidate f a h (m + n)"
  by (induction n) (simp_all add: candidate_0 candidate_Suc)

subsection \<open>How the loop runs\<close>

text \<open>
  One iteration, with the body written through \<open>gd_update\<close> and
      \<open>check_passes\<close>: either the
  check passes and the loop is left with the candidate it had, or the new candidate is
  printed, passed to the callback and adopted.
\<close>

lemma gd_loop_Cons:
  "gd_loop f a t v cb (i # rest) h w =
     (if check_passes f a t h then (True, h, w\<lparr>evals := Suc (evals w)\<rparr>)
      else gd_loop f a t v cb rest (gd_update f a h)
             (case cb of
                None \<Rightarrow> (if v then w\<lparr>evals := Suc (evals w), stdout := stdout w
                    @ [Iter_line i (gd_update f a h)]\<rparr>
                         else w\<lparr>evals := Suc (evals w)\<rparr>)
              | Some c \<Rightarrow> (if v then w\<lparr>evals := Suc (evals w), stdout := stdout
                  w @ [Iter_line i (gd_update f a h)],
                                       caller := c (gd_update f a h) (caller w)\<rparr>
                           else w\<lparr>evals := Suc (evals w), caller := c (gd_update f a h)
                               (caller w)\<rparr>)))"
  by (simp add: check_passes_def gd_update_def Let_def split: option.split)

text \<open>
  The whole run is fixed by the index \<open>k\<close> of the first candidate at which the check
      passes
  (\<open>k\<close> is the number of iterations when it never does): the loop returns the
      \<open>k\<close>-th
  candidate, has called the derivative \<open>k + 1\<close> times (\<open>k\<close> times when it
      ran to the end),
  and has passed the candidates \<open>1, ..., k\<close> to the callback, in this order.
\<close>

lemma candidates_Suc:
  "map (\<lambda>j. candidate f a h (Suc j)) [0..<Suc k] =
     gd_update f a h # map (\<lambda>j. candidate f a (gd_update f a h) (Suc j)) [0..<k]"
  by (simp only: map_upt_Suc candidate_shift) (simp add: candidate_Suc candidate_0)

lemma gd_loop_run:
  assumes "k \<le> length is"
    and "\<forall>j<k. \<not> check_passes f a t (candidate f a h j)"
    and "k < length is \<longrightarrow> check_passes f a t (candidate f a h k)"
  shows "\<exists>w'. gd_loop f a t v cb is h w = (k < length is, candidate f a h k, w') \<and>
          evals w' = evals w + (if k < length is then Suc k else k) \<and>
          caller w' = (case cb of None \<Rightarrow> caller w
                       | Some c \<Rightarrow> fold c (map (\<lambda>j. candidate f a h (Suc j))
                           [0..<k]) (caller w))"
  using assms
proof (induction "is" arbitrary: k h w)
  case Nil
  then show ?case by (simp add: candidate_0 split: option.split)
next
  case (Cons i rest)
  show ?case
  proof (cases k)
    case 0
    with Cons.prems(3) have "check_passes f a t h"
      by (simp add: candidate_0)
    with 0 show ?thesis
      by (simp add: gd_loop_Cons candidate_0 del: gd_loop.simps split: option.split)
  next
    case (Suc k')
    from Cons.prems(2) Suc have "\<not> check_passes f a t (candidate f a h 0)"
      by simp
    then have now: "\<not> check_passes f a t h"
      by (simp add: candidate_0)
    let ?h = "gd_update f a h"
    let ?w = "case cb of
                None \<Rightarrow> (if v then w\<lparr>evals := Suc (evals w), stdout := stdout w
                    @ [Iter_line i ?h]\<rparr>
                         else w\<lparr>evals := Suc (evals w)\<rparr>)
              | Some c \<Rightarrow> (if v then w\<lparr>evals := Suc (evals w), stdout := stdout
                  w @ [Iter_line i ?h],
                                       caller := c ?h (caller w)\<rparr>
                           else w\<lparr>evals := Suc (evals w), caller := c ?h (caller w)\<rparr>)"
    have step: "gd_loop f a t v cb (i # rest) h w = gd_loop f a t v cb rest ?h ?w"
      using now by (simp only: gd_loop_Cons if_False)
    have ev: "evals ?w = Suc (evals w)"
      by (simp split: option.split)
    have ca: "caller ?w = (case cb of None \<Rightarrow> caller w | Some c \<Rightarrow> c ?h
        (caller w))"
      by (simp split: option.split)
    have le: "k' \<le> length rest"
      using Cons.prems(1) Suc by simp
    have before: "\<forall>j<k'. \<not> check_passes f a t (candidate f a ?h j)"
      using Cons.prems(2) Suc by (simp add: candidate_shift)
    have at: "k' < length rest \<longrightarrow> check_passes f a t (candidate f a ?h k')"
      using Cons.prems(3) Suc by (simp add: candidate_shift)
    from Cons.IH [OF le before at, of ?w] obtain w' where
      run: "gd_loop f a t v cb rest ?h ?w = (k' < length rest, candidate f a ?h k', w')" and
      ev': "evals w' = evals ?w + (if k' < length rest then Suc k' else k')" and
      ca': "caller w' = (case cb of None \<Rightarrow> caller ?w
              | Some c \<Rightarrow> fold c (map (\<lambda>j. candidate f a ?h (Suc j)) [0..<k'])
                  (caller ?w))"
      by blast
    have "gd_loop f a t v cb (i # rest) h w = (k < length (i # rest), candidate f a h k, w')"
      by (simp only: step run Suc candidate_shift) simp
    moreover have "evals w' = evals w + (if k < length (i # rest) then Suc k else k)"
      by (simp only: ev' ev Suc) simp
    moreover have "caller w' = (case cb of None \<Rightarrow> caller w
          | Some c \<Rightarrow> fold c (map (\<lambda>j. candidate f a h (Suc j)) [0..<k])
              (caller w))"
      by (simp only: ca' ca Suc candidates_Suc) (simp split: option.split)
    ultimately show ?thesis
      by blast
  qed
qed

text \<open>Such an index always exists: the least one at which the check passes, or the
    cap.\<close>

lemma stop_index_exists:
  "\<exists>k\<le>n. (\<forall>j<k. \<not> check_passes f a t (candidate f a h j)) \<and>
           (k < n \<longrightarrow> check_passes f a t (candidate f a h k))"
proof -
  define P where "P j \<longleftrightarrow> n \<le> j \<or> check_passes f a t (candidate f a h
      j)" for j
  define k where "k = (LEAST j. P j)"
  have "P n" by (simp add: P_def)
  then have Pk: "P k" and le: "k \<le> n"
    unfolding k_def by (rule LeastI, rule Least_le)
  have "\<not> P j" if "j < k" for j
    using that unfolding k_def by (rule not_less_Least)
  with Pk le show ?thesis
    unfolding P_def by (intro exI [of _ k]) auto
qed


lemma gradient_descent_run:
  assumes "k \<le> nat max_iter"
    and "\<forall>j<k. \<not> check_passes f a t (candidate f a h_0 j)"
    and "k < nat max_iter \<longrightarrow> check_passes f a t (candidate f a h_0 k)"
  shows "fst (gradient_descent f h_0 a max_iter t v cb w) = candidate f a h_0 k"
    and "evals (snd (gradient_descent f h_0 a max_iter t v cb w)) =
           evals w + (if k < nat max_iter then Suc k else k)"
    and "caller (snd (gradient_descent f h_0 a max_iter t v cb w)) =
           (case cb of None \<Rightarrow> caller w
            | Some c \<Rightarrow> fold c (map (\<lambda>j. candidate f a h_0 (Suc j)) [0..<k])
                (caller w))"
proof -
  have len: "length (range_py max_iter) = nat max_iter"
    by (simp add: range_py_def)
  from gd_loop_run [of k "range_py max_iter" f a t h_0 v cb w] assms len
  obtain w' where
    run: "gd_loop f a t v cb (range_py max_iter) h_0 w =
            (k < nat max_iter, candidate f a h_0 k, w')" and
    ev: "evals w' = evals w + (if k < nat max_iter then Suc k else k)" and
    ca: "caller w' = (case cb of None \<Rightarrow> caller w
            | Some c \<Rightarrow> fold c (map (\<lambda>j. candidate f a h_0 (Suc j)) [0..<k])
                (caller w))"
    by auto
  show "fst (gradient_descent f h_0 a max_iter t v cb w) = candidate f a h_0 k"
    by (simp add: gradient_descent_def run)
  show "evals (snd (gradient_descent f h_0 a max_iter t v cb w)) =
           evals w + (if k < nat max_iter then Suc k else k)"
    by (simp add: gradient_descent_def run ev)
  show "caller (snd (gradient_descent f h_0 a max_iter t v cb w)) =
           (case cb of None \<Rightarrow> caller w
            | Some c \<Rightarrow> fold c (map (\<lambda>j. candidate f a h_0 (Suc j)) [0..<k])
                (caller w))"
    by (simp add: gradient_descent_def run ca)
qed

text \<open>
  If the check passes on none of the iterations \<open>0, ..., k\<close>, the call returns what a
      call
  returns that starts from candidate \<open>k + 1\<close> with the \<open>max_iter - (k +
      1)\<close> iterations left,
  and it calls the derivative \<open>k + 1\<close> times more often than that call.
\<close>

lemma gradient_descent_continue:
  assumes "k < nat max_iter"
    and "\<forall>j\<le>k. \<not> check_passes f a t (candidate f a h_0 j)"
  shows "fst (gradient_descent f h_0 a max_iter t v cb w) =
         fst (gradient_descent f (candidate f a h_0 (Suc k)) a (max_iter - int (Suc k)) t v' cb'
             w')"
    and "evals (snd (gradient_descent f h_0 a max_iter t v cb w)) + evals w' =
         evals (snd (gradient_descent f (candidate f a h_0 (Suc k)) a (max_iter - int (Suc k))
                       t v' cb' w')) + evals w + Suc k"
proof -
  let ?h = "candidate f a h_0 (Suc k)"
  let ?m = "max_iter - int (Suc k)"
  from stop_index_exists [of "nat ?m" f a t ?h]
  obtain k' where k': "k' \<le> nat ?m"
      "\<forall>j<k'. \<not> check_passes f a t (candidate f a ?h j)"
      "k' < nat ?m \<longrightarrow> check_passes f a t (candidate f a ?h k')"
    by blast
  have le: "Suc k + k' \<le> nat max_iter"
    using assms(1) k'(1) by linarith
  have before: "\<forall>j<Suc k + k'. \<not> check_passes f a t (candidate f a h_0 j)"
  proof (intro allI impI)
    fix j assume j: "j < Suc k + k'"
    show "\<not> check_passes f a t (candidate f a h_0 j)"
    proof (cases "j \<le> k")
      case True
      with assms(2) show ?thesis by simp
    next
      case False
      then have "j = Suc k + (j - Suc k)" and "j - Suc k < k'"
        using j by simp_all
      with k'(2) candidate_add [of f a h_0 "Suc k" "j - Suc k"] show ?thesis
        by metis
    qed
  qed
  have at: "Suc k + k' < nat max_iter \<longrightarrow> check_passes f a t (candidate f a h_0 (Suc
      k + k'))"
  proof
    assume "Suc k + k' < nat max_iter"
    then have "k' < nat ?m" by linarith
    with k'(3) show "check_passes f a t (candidate f a h_0 (Suc k + k'))"
      by (simp only: candidate_add)
  qed
  have "fst (gradient_descent f h_0 a max_iter t v cb w) = candidate f a h_0 (Suc k + k')"
    by (rule gradient_descent_run(1) [OF le before at])
  moreover have "fst (gradient_descent f ?h a ?m t v' cb' w') = candidate f a ?h k'"
    by (rule gradient_descent_run(1) [OF k'])
  ultimately show "fst (gradient_descent f h_0 a max_iter t v cb w) =
         fst (gradient_descent f ?h a ?m t v' cb' w')"
    by (simp only: candidate_add)
  have rest: "Suc k + k' < nat max_iter \<longleftrightarrow> k' < nat ?m"
    using assms(1) by linarith
  have "evals (snd (gradient_descent f h_0 a max_iter t v cb w)) =
          evals w + (if Suc k + k' < nat max_iter then Suc (Suc k + k') else Suc k + k')"
    by (rule gradient_descent_run(2) [OF le before at])
  moreover have "evals (snd (gradient_descent f ?h a ?m t v' cb' w')) =
          evals w' + (if k' < nat ?m then Suc k' else k')"
    by (rule gradient_descent_run(2) [OF k'])
  ultimately show "evals (snd (gradient_descent f h_0 a max_iter t v cb w)) + evals w' =
         evals (snd (gradient_descent f ?h a ?m t v' cb' w')) + evals w + Suc k"
    using rest by simp
qed

subsection \<open>Control flow of \<open>gradient_descent\<close>\<close>

text \<open>
  C1. If the convergence check \<open>\<bar>next - current\<bar> < tol\<close> passes on iteration
      \<open>k\<close> (counted from
  \<open>0\<close>, within the cap, and on no earlier iteration), \<open>gradient_descent\<close>
      stops on that
  iteration, after \<open>k + 1\<close> calls of the derivative, and returns
      \<open>current\<close>, the \<open>k\<close>-th
  candidate, not \<open>next\<close>. When the check passes on the very first iteration the result
      is the
  initial guess \<open>h_0\<close>. This holds for every step size, tolerance and numeric type.
\<close>

theorem early_termination_returns_current:
  assumes "k < nat max_iter"
    and "\<forall>j<k. \<not> check_passes derivative_of_f alpha tol (candidate derivative_of_f
        alpha h_0 j)"
    and "check_passes derivative_of_f alpha tol (candidate derivative_of_f alpha h_0 k)"
  shows "fst (gradient_descent derivative_of_f h_0 alpha max_iter tol verbose callback w) =
           candidate derivative_of_f alpha h_0 k \<and>
         evals (snd (gradient_descent derivative_of_f h_0 alpha max_iter tol verbose callback w)) =
           evals w + Suc k \<and>
         (k = 0 \<longrightarrow>
            fst (gradient_descent derivative_of_f h_0 alpha max_iter tol verbose callback w) = h_0)"
  using assms
    gradient_descent_run(1,2) [of k max_iter derivative_of_f alpha tol h_0 verbose callback w]
  by (auto simp: candidate_0)

theorem early_termination_returns_current_witness:
  "check_passes (bowl_derivative 100000) (1/4) 1 99999 \<and>
   fst (gradient_descent (bowl_derivative 100000) 99999 (1/4) 10000 1 False
          (Some recording) fresh) = 99999 \<and>
   candidate (bowl_derivative 100000) (1/4) 99999 1 = 199999 / 2"
  using early_termination_returns_current [of 0 10000 "bowl_derivative 100000" "1/4" 1 99999
      False "Some recording" fresh]
  by (simp add: check_passes_def gd_update_def candidate_def bowl_derivative_def)

text \<open>
  C2. Every new candidate is \<open>current - alpha * derivative_of_f current\<close>, and when
      the check
  passes on none of the \<open>max_iter\<close> iterations, \<open>gradient_descent\<close>
      returns the
  \<open>max_iter\<close>-fold iterate of the update map applied to \<open>h_0\<close>, the last
      candidate it computed.
\<close>

theorem returns_last_candidate_at_cap:
  assumes "\<forall>j<nat max_iter.
             \<not> check_passes derivative_of_f alpha tol (candidate derivative_of_f alpha h_0 j)"
  shows "fst (gradient_descent derivative_of_f h_0 alpha max_iter tol verbose callback w) =
           candidate derivative_of_f alpha h_0 (nat max_iter) \<and>
         evals (snd (gradient_descent derivative_of_f h_0 alpha max_iter tol verbose callback w)) =
           evals w + nat max_iter \<and>
         candidate derivative_of_f alpha h_0 (Suc j) =
           candidate derivative_of_f alpha h_0 j
             - alpha * derivative_of_f (candidate derivative_of_f alpha h_0 j)"
  using assms
    gradient_descent_run(1,2) [of "nat max_iter" max_iter derivative_of_f alpha tol h_0 verbose
        callback w]
  by (simp add: candidate_Suc gd_update_def)

theorem returns_last_candidate_at_cap_witness:
  "\<not> check_passes (bowl_derivative 100000) (1/4) 1 60000 \<and>
   \<not> check_passes (bowl_derivative 100000) (1/4) 1 80000 \<and>
   \<not> check_passes (bowl_derivative 100000) (1/4) 1 90000 \<and>
   fst (gradient_descent (bowl_derivative 100000) 60000 (1/4) 3 1 False
          (Some recording) fresh) = 95000"
  using returns_last_candidate_at_cap [of 3 "bowl_derivative 100000" "1/4" 1 60000
      False "Some recording" fresh]
  by (simp add: check_passes_def gd_update_def candidate_def bowl_derivative_def numeral_3_eq_3
      less_Suc_eq)

text \<open>
  C4. The returned value does not depend on \<open>verbose\<close>, on the callback, or on the
      world the
  call starts in: any run returns what the run with \<open>verbose = False\<close> and no callback
      returns.
\<close>

theorem result_independent_of_verbose_and_callback:
  "fst (gradient_descent derivative_of_f h_0 alpha max_iter tol verbose callback w) =
   fst (gradient_descent derivative_of_f h_0 alpha max_iter tol False None w')"
proof -
  from stop_index_exists [of "nat max_iter" derivative_of_f alpha tol h_0]
  obtain k where k: "k \<le> nat max_iter"
      "\<forall>j<k. \<not> check_passes derivative_of_f alpha tol (candidate derivative_of_f
          alpha h_0 j)"
      "k < nat max_iter \<longrightarrow> check_passes derivative_of_f alpha tol (candidate
          derivative_of_f alpha h_0 k)"
    by blast
  show ?thesis
    by (simp only: gradient_descent_run(1) [OF k])
qed

text \<open>
  C5 (as stated: the callback is called with \<open>next\<close> on every iteration that computes a
  candidate). This fails on the iteration that ends the loop: the candidate is computed, the
  check passes, and \<^verbatim>\<open>break\<close> comes before the callback. With derivative
      \<open>2 * (h - 100000)\<close>,
  \<open>h_0 = 60000\<close>, \<open>alpha = 1/4\<close> and \<open>tol = 15000\<close> the
      derivative is called twice, the
  candidates \<open>80000\<close> and \<open>90000\<close> are computed, and the callback sees
      \<open>80000\<close> only.
\<close>

theorem callback_skipped_when_check_passes_counterexample:
  "evals (snd (gradient_descent (bowl_derivative 100000) 60000 (1/4) 10 15000 False
                 (Some recording) fresh)) = 2 \<and>
   map (\<lambda>j. candidate (bowl_derivative 100000) (1/4) 60000 (Suc j)) [0..<2] = [80000,
       90000] \<and>
   caller (snd (gradient_descent (bowl_derivative 100000) 60000 (1/4) 10 15000 False
                  (Some recording) fresh)) = [80000]"
  by code_simp

text \<open>
  C5 (amended). A supplied callback is called with \<open>next\<close> on exactly the iterations
      whose check
  fails, that is, after every update and with the candidate just adopted, in the order of the
  iterations: when the loop stops at index \<open>k\<close>, the callback has been given the
      candidates
  \<open>1, ..., k\<close>. On the iteration that ends the loop by the check, the derivative is
      called once
  more and the candidate it gives is not passed on.
\<close>

theorem callback_called_with_adopted_candidates:
  assumes "k \<le> nat max_iter"
    and "\<forall>j<k. \<not> check_passes derivative_of_f alpha tol (candidate derivative_of_f
        alpha h_0 j)"
    and "k < nat max_iter \<longrightarrow>
           check_passes derivative_of_f alpha tol (candidate derivative_of_f alpha h_0 k)"
  shows "caller (snd (gradient_descent derivative_of_f h_0 alpha max_iter tol verbose (Some cb)
      w)) =
           fold cb (map (\<lambda>j. candidate derivative_of_f alpha h_0 (Suc j)) [0..<k]) (caller
               w) \<and>
         evals (snd (gradient_descent derivative_of_f h_0 alpha max_iter tol verbose (Some cb) w)) =
           evals w + (if k < nat max_iter then Suc k else k)"
  using gradient_descent_run(2,3) [OF assms, of verbose "Some cb" w]
  by simp

theorem callback_called_with_adopted_candidates_witness:
  "\<not> check_passes (bowl_derivative 100000) (1/4) 15000 60000 \<and>
   check_passes (bowl_derivative 100000) (1/4) 15000 80000 \<and>
   caller (snd (gradient_descent (bowl_derivative 100000) 60000 (1/4) 10 15000 False
                  (Some recording) fresh)) = [80000]"
  using callback_called_with_adopted_candidates [of 1 10 "bowl_derivative 100000" "1/4"
      15000 60000 False recording fresh]
  by (simp add: check_passes_def gd_update_def candidate_def bowl_derivative_def recording_def
      fresh_def)

text \<open>
  C6. With \<open>max_iter = 0\<close> the call returns \<open>h_0\<close> and never calls the
      derivative. With
  \<open>max_iter = 1\<close> it calls the derivative once and returns \<open>h_0\<close> when the
      check passes, and
  the first candidate \<open>h_0 - alpha * derivative_of_f h_0\<close> otherwise. Neither call can
      fail.
\<close>

theorem iteration_cap_zero_and_one:
  "fst (gradient_descent derivative_of_f h_0 alpha 0 tol verbose callback w) = h_0 \<and>
   evals (snd (gradient_descent derivative_of_f h_0 alpha 0 tol verbose callback w)) = evals w
       \<and>
   fst (gradient_descent derivative_of_f h_0 alpha 1 tol verbose callback w) =
     (if \<bar>(h_0 - alpha * derivative_of_f h_0) - h_0\<bar> < tol then h_0
      else h_0 - alpha * derivative_of_f h_0) \<and>
   evals (snd (gradient_descent derivative_of_f h_0 alpha 1 tol verbose callback w)) =
     Suc (evals w)"
  by (simp add: gradient_descent_def range_py_def Let_def split: option.split)

text \<open>
  C10. The comparison is strict. If on iteration \<open>k\<close> (reached, so the check passed on
      no
  earlier one) \<open>\<bar>next - current\<bar>\<close> equals \<open>tol\<close>, the loop is
      not left there: \<open>next\<close> is
  adopted and the loop goes on, that is, the call returns what a call returns that starts
  from \<open>next\<close> with the \<open>max_iter - (k + 1)\<close> iterations that remain, with
      \<open>k + 1\<close> more
  calls of the derivative. With \<open>tol = 0\<close> the check never passes, and the call runs all
  \<open>max_iter\<close> iterations and returns the last candidate.
\<close>

theorem comparison_is_strict:
  fixes h_0 alpha tol :: "'a::linordered_idom"
  shows "(k < nat max_iter \<and>
          (\<forall>j<k. \<not> check_passes derivative_of_f alpha tol (candidate derivative_of_f
              alpha h_0 j)) \<and>
          \<bar>gd_update derivative_of_f alpha (candidate derivative_of_f alpha h_0 k)
             - candidate derivative_of_f alpha h_0 k\<bar> = tol \<longrightarrow>
          fst (gradient_descent derivative_of_f h_0 alpha max_iter tol verbose callback w) =
          fst (gradient_descent derivative_of_f (candidate derivative_of_f alpha h_0 (Suc k)) alpha
                 (max_iter - int (Suc k)) tol verbose callback w) \<and>
          evals (snd (gradient_descent derivative_of_f h_0 alpha max_iter tol verbose callback w)) =
          evals (snd (gradient_descent derivative_of_f (candidate derivative_of_f alpha h_0 (Suc k))
                        alpha (max_iter - int (Suc k)) tol verbose callback w)) + Suc k) \<and>
         fst (gradient_descent derivative_of_f h_0 alpha max_iter 0 verbose callback w) =
           candidate derivative_of_f alpha h_0 (nat max_iter) \<and>
         evals (snd (gradient_descent derivative_of_f h_0 alpha max_iter 0 verbose callback w)) =
           evals w + nat max_iter"
proof (intro conjI impI)
  assume a: "k < nat max_iter \<and>
          (\<forall>j<k. \<not> check_passes derivative_of_f alpha tol (candidate derivative_of_f
              alpha h_0 j)) \<and>
          \<bar>gd_update derivative_of_f alpha (candidate derivative_of_f alpha h_0 k)
             - candidate derivative_of_f alpha h_0 k\<bar> = tol"
  then have "\<not> check_passes derivative_of_f alpha tol (candidate derivative_of_f alpha h_0 k)"
    by (simp add: check_passes_def)
  with a have all: "\<forall>j\<le>k. \<not> check_passes derivative_of_f alpha tol (candidate
      derivative_of_f alpha h_0 j)"
    by (simp add: le_less)
  from a have k: "k < nat max_iter"
    by simp
  show "fst (gradient_descent derivative_of_f h_0 alpha max_iter tol verbose callback w) =
          fst (gradient_descent derivative_of_f (candidate derivative_of_f alpha h_0 (Suc k)) alpha
                 (max_iter - int (Suc k)) tol verbose callback w)"
    by (rule gradient_descent_continue(1) [OF k all])
  from gradient_descent_continue(2) [OF k all, where v = verbose and cb = callback and w = w
      and v' = verbose and cb' = callback and w' = w]
  show "evals (snd (gradient_descent derivative_of_f h_0 alpha max_iter tol verbose callback w)) =
          evals (snd (gradient_descent derivative_of_f (candidate derivative_of_f alpha h_0 (Suc k))
                        alpha (max_iter - int (Suc k)) tol verbose callback w)) + Suc k"
    by simp
next
  have never: "\<forall>j<nat max_iter. \<not> check_passes derivative_of_f alpha 0 (candidate
      derivative_of_f alpha h_0 j)"
    by (simp add: check_passes_def)
  from gradient_descent_run(1) [of "nat max_iter" max_iter derivative_of_f alpha 0 h_0 verbose
      callback w] never
  show "fst (gradient_descent derivative_of_f h_0 alpha max_iter 0 verbose callback w) =
           candidate derivative_of_f alpha h_0 (nat max_iter)"
    by simp
  from gradient_descent_run(2) [of "nat max_iter" max_iter derivative_of_f alpha 0 h_0 verbose
      callback w] never
  show "evals (snd (gradient_descent derivative_of_f h_0 alpha max_iter 0 verbose callback w)) =
           evals w + nat max_iter"
    by simp
qed

theorem comparison_is_strict_witness:
  "\<bar>gd_update (bowl_derivative 100000) (1/4) 60000 - 60000\<bar> = 20000 \<and>
   fst (gradient_descent (bowl_derivative 100000) 60000 (1/4) 5 20000 False None fresh) = 80000
       \<and>
   evals (snd (gradient_descent (bowl_derivative 100000) 60000 (1/4) 5 20000 False None fresh)) =
       2 \<and>
   fst (gradient_descent (bowl_derivative 100000) 60000 (1/4) 5 0 False None fresh) = 98750"
proof -
  have "fst (gradient_descent (bowl_derivative 100000) 80000 (1/4) 4 20000 False None fresh) =
      80000"
    by code_simp
  moreover have "evals (snd (gradient_descent (bowl_derivative 100000) 80000 (1/4) 4 20000 False
      None fresh)) = 1"
    by code_simp
  moreover have "candidate (bowl_derivative 100000) (1/4) 60000 5 = 98750"
    by code_simp
  ultimately show ?thesis
    using comparison_is_strict [of 0 5 "bowl_derivative 100000" "1/4" 20000 60000 False None fresh]
    by (simp add: candidate_def gd_update_def bowl_derivative_def)
qed

section \<open>Double-precision arithmetic\<close>

subsection \<open>Rounding\<close>

text \<open>
  \<open>exponent\<close> is the binary exponent, and \<open>rnd x\<close> is the multiple
      \<open>m * 2 ^ e\<close> of the unit
  in the last place that lies less than half a unit from \<open>x\<close>. The second fact is what
  computes the roundings below: each names \<open>m\<close> and \<open>e\<close> and checks the
      inequalities.
\<close>

lemma two_powi_less_cancel: "(2::rat) powi a < 2 powi b \<Longrightarrow> a < b"
proof (rule ccontr)
  assume lt: "(2::rat) powi a < 2 powi b" and "\<not> a < b"
  then have "b \<le> a" by simp
  then have "(2::rat) powi b \<le> 2 powi a"
    by (intro power_int_increasing) simp_all
  with lt show False by simp
qed

lemma two_powi_unique:
  fixes t :: rat
  assumes "2 powi a \<le> t" and "t < 2 powi (a + 1)" and "2 powi b \<le> t" and "t < 2 powi (b +
      1)"
  shows "a = b"
proof -
  from assms(1,4) have "(2::rat) powi a < 2 powi (b + 1)" by simp
  then have "a < b + 1" by (rule two_powi_less_cancel)
  moreover from assms(3,2) have "(2::rat) powi b < 2 powi (a + 1)" by simp
  then have "b < a + 1" by (rule two_powi_less_cancel)
  ultimately show ?thesis by simp
qed

lemma bitlen_rat_bounds:
  assumes "0 < p"
  shows "2 powi (bitlen p - 1) \<le> (of_int p :: rat)" and "(of_int p :: rat) < 2 powi bitlen p"
proof -
  from assms have pos: "1 \<le> bitlen p"
    by (simp add: bitlen_alt_def)
  from bitlen_bounds [OF assms] have lo: "2 ^ nat (bitlen p - 1) \<le> p" and hi: "p < 2 ^ nat
      (bitlen p)"
    by simp_all
  from lo have "(of_int (2 ^ nat (bitlen p - 1)) :: rat) \<le> of_int p"
    by (simp only: of_int_le_iff)
  with pos show "2 powi (bitlen p - 1) \<le> (of_int p :: rat)"
    by (simp add: power_int_def)
  from hi have "(of_int p :: rat) < of_int (2 ^ nat (bitlen p))"
    by (simp only: of_int_less_iff)
  with pos show "(of_int p :: rat) < 2 powi bitlen p"
    by (simp add: power_int_def)
qed

lemma exponent_bounds:
  assumes "x \<noteq> 0"
  shows "2 powi exponent x \<le> \<bar>x\<bar>" and "\<bar>x\<bar> < 2 powi (exponent x + 1)"
proof -
  obtain p q where pq: "quotient_of \<bar>x\<bar> = (p, q)"
    by (cases "quotient_of \<bar>x\<bar>")
  have q: "0 < q"
    by (rule quotient_of_denom_pos [OF pq])
  have x: "\<bar>x\<bar> = of_int p / of_int q"
    by (rule quotient_of_div [OF pq])
  have "0 < \<bar>x\<bar>" using assms by simp
  with x q have p: "0 < p"
    by (simp add: zero_less_divide_iff)
  define d where "d = bitlen p - bitlen q"
  note bp = bitlen_rat_bounds [OF p] and bq = bitlen_rat_bounds [OF q]
  have "2 powi (bitlen p - 1) / 2 powi bitlen q < (of_int p :: rat) / of_int q"
    using bp(1) bq(2) q by (intro frac_less2) simp_all
  moreover have "(2::rat) powi (bitlen p - 1) / 2 powi bitlen q = 2 powi (d - 1)"
    unfolding d_def by (simp flip: power_int_diff) (simp add: algebra_simps)
  ultimately have lo: "2 powi (d - 1) < \<bar>x\<bar>"
    by (simp only: x)
  have "(of_int p :: rat) / of_int q < 2 powi bitlen p / 2 powi (bitlen q - 1)"
    using bp(2) bq(1) p by (intro frac_less) simp_all
  moreover have "(2::rat) powi bitlen p / 2 powi (bitlen q - 1) = 2 powi (d + 1)"
    unfolding d_def by (simp flip: power_int_diff) (simp add: algebra_simps)
  ultimately have hi: "\<bar>x\<bar> < 2 powi (d + 1)"
    by (simp only: x)
  have e: "exponent x = (if 2 powi d \<le> \<bar>x\<bar> then d else d - 1)"
    by (simp add: exponent_def pq d_def Let_def)
  show "2 powi exponent x \<le> \<bar>x\<bar>"
    using lo by (simp add: e)
  show "\<bar>x\<bar> < 2 powi (exponent x + 1)"
    using hi by (simp add: e)
qed

lemma exponent_eqI:
  assumes "2 powi e \<le> \<bar>x\<bar>" and "\<bar>x\<bar> < 2 powi (e + 1)"
  shows "exponent x = e"
proof -
  have "(0::rat) < 2 powi e" by simp
  with assms(1) have "0 < \<bar>x\<bar>" by linarith
  then have "x \<noteq> 0" by simp
  from exponent_bounds [OF this] assms show ?thesis
    by (intro two_powi_unique)
qed

lemma round_half_even_eqI:
  assumes "\<bar>x - of_int m\<bar> < 1 / 2"
  shows "round_half_even x = m"
proof -
  from assms have lo: "of_int m - 1 / 2 < x" and hi: "x < of_int m + 1 / 2"
    by linarith+
  show ?thesis
  proof (cases "of_int m \<le> x")
    case True
    with hi have "\<lfloor>x\<rfloor> = m"
      by (intro floor_unique) simp_all
    with hi show ?thesis
      by (simp add: round_half_even_def Let_def)
  next
    case False
    with lo have f: "\<lfloor>x\<rfloor> = m - 1"
      by (intro floor_unique) simp_all
    with lo show ?thesis
      by (simp add: round_half_even_def Let_def)
  qed
qed

lemma rnd_eqI:
  assumes "- 1074 \<le> e"
    and "2 powi (e + 52) \<le> \<bar>x\<bar>" and "\<bar>x\<bar> < 2 powi (e + 53)"
    and "\<bar>x - of_int m * 2 powi e\<bar> < 2 powi e / 2"
    and "y = of_int m * 2 powi e"
    and "\<bar>y\<bar> < 2 ^ 1024"
  shows "rnd x = Finite y"
proof -
  have u: "(0::rat) < 2 powi e" by simp
  have "(0::rat) < 2 powi (e + 52)" by simp
  with assms(2) have "0 < \<bar>x\<bar>" by linarith
  then have nz: "x \<noteq> 0" by simp
  have ex: "exponent x = e + 52"
    using assms(2,3) by (intro exponent_eqI) (simp_all add: add.commute add.left_commute)
  have e: "max (exponent x - 52) (- 1074) = e"
    using assms(1) by (simp add: ex)
  have "\<bar>x / 2 powi e - of_int m\<bar> = \<bar>x - of_int m * 2 powi e\<bar> / 2 powi e"
    using u by (simp add: field_simps abs_divide flip: abs_mult_pos)
  also have "\<dots> < (2 powi e / 2) / 2 powi e"
    using assms(4) u by (intro divide_strict_right_mono) simp_all
  also have "\<dots> = 1 / 2"
    using u by simp
  finally have m: "round_half_even (x / 2 powi e) = m"
    by (rule round_half_even_eqI)
  from assms(6) have "\<not> 2 ^ 1024 \<le> y" and "\<not> y \<le> - (2 ^ 1024)"
    by linarith+
  then show ?thesis
    using nz by (simp add: rnd_def e m assms(5) [symmetric] Let_def)
qed

lemma round_half_even_ge:
  assumes "of_int n \<le> x"
  shows "n \<le> round_half_even x"
proof -
  from assms have "n \<le> \<lfloor>x\<rfloor>"
    by (simp add: le_floor_iff)
  then show ?thesis
    by (simp add: round_half_even_def Let_def)
qed

lemma round_half_even_le:
  assumes "x \<le> of_int n"
  shows "round_half_even x \<le> n"
proof (cases "x = of_int n")
  case True
  then show ?thesis
    by (simp add: round_half_even_def Let_def)
next
  case False
  with assms have "x < of_int n" by simp
  then have "\<lfloor>x\<rfloor> < n"
    by (simp add: floor_less_iff)
  then show ?thesis
    by (simp add: round_half_even_def Let_def)
qed

lemma rnd_overflow:
  assumes "2 ^ 1024 \<le> \<bar>x\<bar>"
  shows "rnd x = (if 0 < x then PInf else NInf)"
proof -
  have pos: "(0::rat) < 2 ^ 1024" by simp
  with assms have "0 < \<bar>x\<bar>" by linarith
  then have nz: "x \<noteq> 0" by simp
  define e where "e = exponent x - 52"
  note b = exponent_bounds [OF nz]
  have "(2::rat) powi 1024 < 2 powi (exponent x + 1)"
    using assms b(2) by simp
  then have big: "1024 \<le> exponent x"
    using two_powi_less_cancel [of 1024 "exponent x + 1"] by simp
  then have e: "max (exponent x - 52) (- 1074) = e"
    by (simp add: e_def)
  have u: "(0::rat) < 2 powi e" by simp
  have split: "(2::rat) powi exponent x = 2 ^ 52 * 2 powi e"
    by (simp add: e_def power_int_diff)
  have "(2::rat) powi 1024 \<le> 2 powi exponent x"
    using big by (intro power_int_increasing) simp_all
  then have top: "(2::rat) ^ 1024 \<le> 2 ^ 52 * 2 powi e"
    by (simp add: split)
  have scaled: "2 ^ 52 \<le> \<bar>x\<bar> / 2 powi e"
    using b(1) u by (simp add: split pos_le_divide_eq)
  show ?thesis
  proof (cases "0 < x")
    case True
    with scaled have "rat_of_int (2 ^ 52) \<le> x / 2 powi e"
      by simp
    then have "2 ^ 52 \<le> round_half_even (x / 2 powi e)"
      by (rule round_half_even_ge)
    then have "(2::rat) ^ 52 \<le> of_int (round_half_even (x / 2 powi e))"
      by (metis of_int_le_iff of_int_numeral of_int_power)
    then have "2 ^ 52 * 2 powi e \<le> rat_of_int (round_half_even (x / 2 powi e)) * 2 powi e"
      using u by (intro mult_right_mono) simp_all
    with top have "2 ^ 1024 \<le> rat_of_int (round_half_even (x / 2 powi e)) * 2 powi e"
      by linarith
    with True nz show ?thesis
      by (simp add: rnd_def e Let_def)
  next
    case False
    with nz have neg: "x < 0" by simp
    with scaled u have "x / 2 powi e \<le> rat_of_int (- (2 ^ 52))"
      by (simp add: abs_if field_simps)
    then have "round_half_even (x / 2 powi e) \<le> - (2 ^ 52)"
      by (rule round_half_even_le)
    then have "rat_of_int (round_half_even (x / 2 powi e)) \<le> - ((2::rat) ^ 52)"
      by (metis of_int_le_iff of_int_minus of_int_numeral of_int_power)
    then have "rat_of_int (round_half_even (x / 2 powi e)) * 2 powi e \<le> - (2 ^ 52) * 2 powi e"
      using u by (intro mult_right_mono) simp_all
    with top have le: "rat_of_int (round_half_even (x / 2 powi e)) * 2 powi e \<le> - (2 ^ 1024)"
      by linarith
    with pos have "\<not> 2 ^ 1024 \<le> rat_of_int (round_half_even (x / 2 powi e)) * 2 powi e"
      by linarith
    with le neg nz show ?thesis
      by (simp add: rnd_def e Let_def)
  qed
qed

text \<open>The literals \<^verbatim>\<open>1e-12\<close>, \<^verbatim>\<open>1.1\<close> and
    \<^verbatim>\<open>1e308\<close> as doubles.\<close>

lemma default_tol_value:
  "default_tol = Finite (4951760157141521 / 4951760157141521099596496896)"
  unfolding default_tol_def
  by (rule rnd_eqI [where e = "- 92" and m = 4951760157141521]) simp_all

lemma alpha_11_10: "rnd (11 / 10) = Finite (2476979795053773 / 2251799813685248)"
  by (rule rnd_eqI [where e = "- 52" and m = 4953959590107546]) simp_all

lemma alpha_1e308: "rnd (10 ^ 308) = Finite
    100000000000000001097906362944045541740492309677311846336810682903157585404911491537163328978494688899061249669721172515611590283743140088328307009198146046031271664502933027185697489699588559043338384466165001178426897626212945177628091195786707458122783970171784415105291802893207873272974885715430223118336"
  by (rule rnd_eqI [where e = "971" and m = "5010420900022432"]) simp_all

lemma range_py_3: "range_py 3 = [0, 1, 2]"
  by code_simp

lemma range_py_6: "range_py 6 = [0, 1, 2, 3, 4, 5]"
  by code_simp

lemma range_py_10: "range_py 10 = [0, 1, 2, 3, 4, 5, 6, 7, 8, 9]"
  by code_simp

subsection \<open>A run that the check ends\<close>

text \<open>
  Derivative \<open>2 * (h - 100000)\<close>, \<open>h_0 = 60000\<close>, \<open>alpha =
      0.25\<close>, \<open>tol = 15000\<close>: the first
  candidate \<open>80000\<close> is adopted, the second, \<open>90000\<close>, is
      \<open>10000\<close> away from it, and the call
  returns \<open>80000\<close>. Each lemma is one rounded operation of the two iterations.
\<close>

lemma quarter_1: "rnd (60000 - 100000) = Finite (- 40000)"
  by (rule rnd_eqI [where e = "(- 37)" and m = "(- 5497558138880000)"]) simp_all

lemma quarter_2: "rnd (2 * (- 40000)) = Finite (- 80000)"
  by (rule rnd_eqI [where e = "(- 36)" and m = "(- 5497558138880000)"]) simp_all

lemma quarter_3: "rnd ((1 / 4) * (- 80000)) = Finite (- 20000)"
  by (rule rnd_eqI [where e = "(- 38)" and m = "(- 5497558138880000)"]) simp_all

lemma quarter_4: "rnd (60000 - (- 20000)) = Finite 80000"
  by (rule rnd_eqI [where e = "(- 36)" and m = "5497558138880000"]) simp_all

lemma quarter_5: "rnd (80000 - 60000) = Finite 20000"
  by (rule rnd_eqI [where e = "(- 38)" and m = "5497558138880000"]) simp_all

lemma quarter_6: "rnd (80000 - 100000) = Finite (- 20000)"
  by (rule rnd_eqI [where e = "(- 38)" and m = "(- 5497558138880000)"]) simp_all

lemma quarter_7: "rnd (2 * (- 20000)) = Finite (- 40000)"
  by (rule rnd_eqI [where e = "(- 37)" and m = "(- 5497558138880000)"]) simp_all

lemma quarter_8: "rnd ((1 / 4) * (- 40000)) = Finite (- 10000)"
  by (rule rnd_eqI [where e = "(- 39)" and m = "(- 5497558138880000)"]) simp_all

lemma quarter_9: "rnd (80000 - (- 10000)) = Finite 90000"
  by (rule rnd_eqI [where e = "(- 36)" and m = "6184752906240000"]) simp_all

lemma quarter_10: "rnd (90000 - 80000) = Finite 10000"
  by (rule rnd_eqI [where e = "(- 39)" and m = "5497558138880000"]) simp_all

lemma quarter_update_0:
  "gd_update (bowl_double 100000) (Finite (1 / 4)) (Finite 60000) = Finite 80000"
  by (simp only: gd_update_def bowl_double_def minus_double_def times_double_def double_sub.simps
      double_mul.simps  quarter_1 quarter_2 quarter_3 quarter_4)

lemma quarter_check_0:
  "check_passes (bowl_double 100000) (Finite (1 / 4)) (Finite 15000) (Finite 60000) = False"
  by (simp only: check_passes_def minus_double_def abs_double_def less_double_def double_sub.simps
      double_abs.simps double_less.simps quarter_update_0  quarter_5) simp

lemma quarter_update_1:
  "gd_update (bowl_double 100000) (Finite (1 / 4)) (Finite 80000) = Finite 90000"
  by (simp only: gd_update_def bowl_double_def minus_double_def times_double_def double_sub.simps
      double_mul.simps  quarter_6 quarter_7 quarter_8 quarter_9)

lemma quarter_check_1:
  "check_passes (bowl_double 100000) (Finite (1 / 4)) (Finite 15000) (Finite 80000) = True"
  by (simp only: check_passes_def minus_double_def abs_double_def less_double_def double_sub.simps
      double_abs.simps double_less.simps quarter_update_1  quarter_10) simp

lemma quarter_run:
  "gradient_descent (bowl_double 100000) (Finite 60000) (Finite (1 / 4)) 10 (Finite 15000)
     False (Some recording) fresh =
   (Finite 80000, \<lparr>stdout = [], caller = [Finite 80000], evals = 2\<rparr>)"
  unfolding gradient_descent_def range_py_10
  by (simp only: gd_loop_Cons gd_loop.simps quarter_check_0 quarter_check_1
      quarter_update_0 quarter_update_1 if_False if_True option.case)
    (simp add: fresh_def recording_def)

subsection \<open>A run in which rounding keeps the step at 2\<close>

text \<open>
  Constant derivative \<open>1.5\<close>, \<open>h_0 = 1e16\<close>, \<open>alpha = 1\<close>,
      \<open>tol = 1.75\<close>. Doubles near \<open>1e16\<close>
  are \<open>2\<close> apart, so \<open>h - 1.5\<close> is rounded to \<open>h - 2\<close> and the
      difference the check sees
  is \<open>2\<close>, not \<open>1.5\<close>.
\<close>

lemma stall_1: "rnd (1 * (3 / 2)) = Finite (3 / 2)"
  by (rule rnd_eqI [where e = "(- 52)" and m = "6755399441055744"]) simp_all

lemma stall_2: "rnd (10000000000000000 - (3 / 2)) = Finite 9999999999999998"
  by (rule rnd_eqI [where e = "1" and m = "4999999999999999"]) simp_all

lemma stall_3: "rnd (9999999999999998 - 10000000000000000) = Finite (- 2)"
  by (rule rnd_eqI [where e = "(- 51)" and m = "(- 4503599627370496)"]) simp_all

lemma stall_4: "rnd (9999999999999998 - (3 / 2)) = Finite 9999999999999996"
  by (rule rnd_eqI [where e = "1" and m = "4999999999999998"]) simp_all

lemma stall_5: "rnd (9999999999999996 - 9999999999999998) = Finite (- 2)"
  by (rule rnd_eqI [where e = "(- 51)" and m = "(- 4503599627370496)"]) simp_all

lemma stall_6: "rnd (9999999999999996 - (3 / 2)) = Finite 9999999999999994"
  by (rule rnd_eqI [where e = "1" and m = "4999999999999997"]) simp_all

lemma stall_7: "rnd (9999999999999994 - 9999999999999996) = Finite (- 2)"
  by (rule rnd_eqI [where e = "(- 51)" and m = "(- 4503599627370496)"]) simp_all

lemma stall_update_0:
  "gd_update (\<lambda>h. Finite (3 / 2)) (Finite 1) (Finite 10000000000000000) = Finite
      9999999999999998"
  by (simp only: gd_update_def minus_double_def times_double_def double_sub.simps double_mul.simps
      stall_1 stall_2)

lemma stall_check_0:
  "check_passes (\<lambda>h. Finite (3 / 2)) (Finite 1) (Finite (7 / 4)) (Finite
      10000000000000000) = False"
  by (simp only: check_passes_def minus_double_def abs_double_def less_double_def double_sub.simps
      double_abs.simps double_less.simps stall_update_0 stall_3) simp

lemma stall_update_1:
  "gd_update (\<lambda>h. Finite (3 / 2)) (Finite 1) (Finite 9999999999999998) = Finite
      9999999999999996"
  by (simp only: gd_update_def minus_double_def times_double_def double_sub.simps double_mul.simps
      stall_1 stall_4)

lemma stall_check_1:
  "check_passes (\<lambda>h. Finite (3 / 2)) (Finite 1) (Finite (7 / 4)) (Finite 9999999999999998)
      = False"
  by (simp only: check_passes_def minus_double_def abs_double_def less_double_def double_sub.simps
      double_abs.simps double_less.simps stall_update_1 stall_5) simp

lemma stall_update_2:
  "gd_update (\<lambda>h. Finite (3 / 2)) (Finite 1) (Finite 9999999999999996) = Finite
      9999999999999994"
  by (simp only: gd_update_def minus_double_def times_double_def double_sub.simps double_mul.simps
      stall_1 stall_6)

lemma stall_check_2:
  "check_passes (\<lambda>h. Finite (3 / 2)) (Finite 1) (Finite (7 / 4)) (Finite 9999999999999996)
      = False"
  by (simp only: check_passes_def minus_double_def abs_double_def less_double_def double_sub.simps
      double_abs.simps double_less.simps stall_update_2 stall_7) simp

lemma stall_run:
  "gradient_descent (\<lambda>h. Finite (3 / 2)) (Finite 10000000000000000) (Finite 1) 3 (Finite
      (7 / 4))
     False (Some recording) fresh =
   (Finite 9999999999999994,
    \<lparr>stdout = [],
       caller = [Finite 9999999999999998, Finite 9999999999999996, Finite 9999999999999994],
       evals = 3\<rparr>)"
  unfolding gradient_descent_def range_py_3
  by (simp only: gd_loop_Cons gd_loop.simps stall_check_0 stall_check_1 stall_check_2
      stall_update_0 stall_update_1 stall_update_2 if_False option.case)
    (simp add: fresh_def recording_def)

subsection \<open>The run with step size 1.1\<close>

text \<open>
  Derivative \<open>2 * (h - 100000)\<close>, \<open>h_0 = 60000\<close>, \<open>alpha =
      1.1\<close>, the default tolerance and
  a cap of \<open>6\<close>, as in the notebook's third visualisation.
\<close>

lemma diverge_1: "rnd (60000 - 100000) = Finite (- 40000)"
  by (rule rnd_eqI [where e = "(- 37)" and m = "(- 5497558138880000)"]) simp_all

lemma diverge_2: "rnd (2 * (- 40000)) = Finite (- 80000)"
  by (rule rnd_eqI [where e = "(- 36)" and m = "(- 5497558138880000)"]) simp_all

lemma diverge_3: "rnd ((2476979795053773 / 2251799813685248) * (- 80000)) = Finite (- 88000)"
  by (rule rnd_eqI [where e = "(- 36)" and m = "(- 6047313952768000)"]) simp_all

lemma diverge_4: "rnd (60000 - (- 88000)) = Finite 148000"
  by (rule rnd_eqI [where e = "(- 35)" and m = "5085241278464000"]) simp_all

lemma diverge_5: "rnd (148000 - 60000) = Finite 88000"
  by (rule rnd_eqI [where e = "(- 36)" and m = "6047313952768000"]) simp_all

lemma diverge_6: "rnd (148000 - 100000) = Finite 48000"
  by (rule rnd_eqI [where e = "(- 37)" and m = "6597069766656000"]) simp_all

lemma diverge_7: "rnd (2 * 48000) = Finite 96000"
  by (rule rnd_eqI [where e = "(- 36)" and m = "6597069766656000"]) simp_all

lemma diverge_8: "rnd ((2476979795053773 / 2251799813685248) * 96000) = Finite (7256776743321601 /
    68719476736)"
  by (rule rnd_eqI [where e = "(- 36)" and m = "7256776743321601"]) simp_all

lemma diverge_9: "rnd (148000 - (7256776743321601 / 68719476736)) = Finite (2913705813606399 /
    68719476736)"
  by (rule rnd_eqI [where e = "(- 37)" and m = "5827411627212798"]) simp_all

lemma diverge_10: "rnd ((2913705813606399 / 68719476736) - 148000) = Finite (- 7256776743321601 /
    68719476736)"
  by (rule rnd_eqI [where e = "(- 36)" and m = "(- 7256776743321601)"]) simp_all

lemma diverge_11: "rnd ((2913705813606399 / 68719476736) - 100000) = Finite (- 3958241859993601 /
    68719476736)"
  by (rule rnd_eqI [where e = "(- 37)" and m = "(- 7916483719987202)"]) simp_all

lemma diverge_12: "rnd (2 * (- 3958241859993601 / 68719476736)) = Finite (- 3958241859993601 /
    34359738368)"
  by (rule rnd_eqI [where e = "(- 36)" and m = "(- 7916483719987202)"]) simp_all

lemma diverge_13: "rnd ((2476979795053773 / 2251799813685248) * (- 3958241859993601 /
    34359738368)) = Finite (- 8708132091985923 / 68719476736)"
  by (rule rnd_eqI [where e = "(- 36)" and m = "(- 8708132091985923)"]) simp_all

lemma diverge_14: "rnd ((2913705813606399 / 68719476736) - (- 8708132091985923 / 68719476736)) =
    Finite (5810918952796161 / 34359738368)"
  by (rule rnd_eqI [where e = "(- 35)" and m = "5810918952796161"]) simp_all

lemma diverge_15: "rnd ((5810918952796161 / 34359738368) - (2913705813606399 / 68719476736)) =
    Finite (8708132091985923 / 68719476736)"
  by (rule rnd_eqI [where e = "(- 36)" and m = "8708132091985923"]) simp_all

lemma diverge_16: "rnd ((5810918952796161 / 34359738368) - 100000) = Finite (2374945115996161 /
    34359738368)"
  by (rule rnd_eqI [where e = "(- 36)" and m = "4749890231992322"]) simp_all

lemma diverge_17: "rnd (2 * (2374945115996161 / 34359738368)) = Finite (2374945115996161 /
    17179869184)"
  by (rule rnd_eqI [where e = "(- 35)" and m = "4749890231992322"]) simp_all

lemma diverge_18: "rnd ((2476979795053773 / 2251799813685248) * (2374945115996161 / 17179869184))
    = Finite (5224879255191555 / 34359738368)"
  by (rule rnd_eqI [where e = "(- 35)" and m = "5224879255191555"]) simp_all

lemma diverge_19: "rnd ((5810918952796161 / 34359738368) - (5224879255191555 / 34359738368)) =
    Finite (293019848802303 / 17179869184)"
  by (rule rnd_eqI [where e = "(- 38)" and m = "4688317580836848"]) simp_all

lemma diverge_20: "rnd ((293019848802303 / 17179869184) - (5810918952796161 / 34359738368)) =
    Finite (- 5224879255191555 / 34359738368)"
  by (rule rnd_eqI [where e = "(- 35)" and m = "(- 5224879255191555)"]) simp_all

lemma diverge_21: "rnd ((293019848802303 / 17179869184) - 100000) = Finite (- 1424967069597697 /
    17179869184)"
  by (rule rnd_eqI [where e = "(- 36)" and m = "(- 5699868278390788)"]) simp_all

lemma diverge_22: "rnd (2 * (- 1424967069597697 / 17179869184)) = Finite (- 1424967069597697 /
    8589934592)"
  by (rule rnd_eqI [where e = "(- 35)" and m = "(- 5699868278390788)"]) simp_all

lemma diverge_23: "rnd ((2476979795053773 / 2251799813685248) * (- 1424967069597697 / 8589934592))
    = Finite (- 6269855106229867 / 34359738368)"
  by (rule rnd_eqI [where e = "(- 35)" and m = "(- 6269855106229867)"]) simp_all

lemma diverge_24: "rnd ((293019848802303 / 17179869184) - (- 6269855106229867 / 34359738368)) =
    Finite (6855894803834473 / 34359738368)"
  by (rule rnd_eqI [where e = "(- 35)" and m = "6855894803834473"]) simp_all

lemma diverge_25: "rnd ((6855894803834473 / 34359738368) - (293019848802303 / 17179869184)) =
    Finite (6269855106229867 / 34359738368)"
  by (rule rnd_eqI [where e = "(- 35)" and m = "6269855106229867"]) simp_all

lemma diverge_26: "rnd ((6855894803834473 / 34359738368) - 100000) = Finite (3419920967034473 /
    34359738368)"
  by (rule rnd_eqI [where e = "(- 36)" and m = "6839841934068946"]) simp_all

lemma diverge_27: "rnd (2 * (3419920967034473 / 34359738368)) = Finite (3419920967034473 /
    17179869184)"
  by (rule rnd_eqI [where e = "(- 35)" and m = "6839841934068946"]) simp_all

lemma diverge_28: "rnd ((2476979795053773 / 2251799813685248) * (3419920967034473 / 17179869184))
    = Finite (7523826127475841 / 34359738368)"
  by (rule rnd_eqI [where e = "(- 35)" and m = "7523826127475841"]) simp_all

lemma diverge_29: "rnd ((6855894803834473 / 34359738368) - (7523826127475841 / 34359738368)) =
    Finite (- 83491415455171 / 4294967296)"
  by (rule rnd_eqI [where e = "(- 38)" and m = "(- 5343450589130944)"]) simp_all

lemma diverge_30: "rnd ((- 83491415455171 / 4294967296) - (6855894803834473 / 34359738368)) =
    Finite (- 7523826127475841 / 34359738368)"
  by (rule rnd_eqI [where e = "(- 35)" and m = "(- 7523826127475841)"]) simp_all

lemma diverge_31: "rnd ((- 83491415455171 / 4294967296) - 100000) = Finite (- 512988145055171 /
    4294967296)"
  by (rule rnd_eqI [where e = "(- 36)" and m = "(- 8207810320882736)"]) simp_all

lemma diverge_update_0:
  "gd_update (bowl_double 100000) (rnd (11 / 10)) (Finite 60000) = Finite 148000"
  by (simp only: gd_update_def bowl_double_def minus_double_def times_double_def double_sub.simps
      double_mul.simps alpha_11_10 diverge_1 diverge_2 diverge_3 diverge_4)

lemma diverge_check_0:
  "check_passes (bowl_double 100000) (rnd (11 / 10)) (default_tol) (Finite 60000) = False"
  by (simp only: check_passes_def minus_double_def abs_double_def less_double_def double_sub.simps
      double_abs.simps double_less.simps diverge_update_0 default_tol_value diverge_5) simp

lemma diverge_update_1:
  "gd_update (bowl_double 100000) (rnd (11 / 10)) (Finite 148000) = Finite (2913705813606399 /
      68719476736)"
  by (simp only: gd_update_def bowl_double_def minus_double_def times_double_def double_sub.simps
      double_mul.simps alpha_11_10 diverge_6 diverge_7 diverge_8 diverge_9)

lemma diverge_check_1:
  "check_passes (bowl_double 100000) (rnd (11 / 10)) (default_tol) (Finite 148000) = False"
  by (simp only: check_passes_def minus_double_def abs_double_def less_double_def double_sub.simps
      double_abs.simps double_less.simps diverge_update_1 default_tol_value diverge_10) simp

lemma diverge_update_2:
  "gd_update (bowl_double 100000) (rnd (11 / 10)) (Finite (2913705813606399 / 68719476736)) =
      Finite (5810918952796161 / 34359738368)"
  by (simp only: gd_update_def bowl_double_def minus_double_def times_double_def double_sub.simps
      double_mul.simps alpha_11_10 diverge_11 diverge_12 diverge_13 diverge_14)

lemma diverge_check_2:
  "check_passes (bowl_double 100000) (rnd (11 / 10)) (default_tol) (Finite (2913705813606399 /
      68719476736)) = False"
  by (simp only: check_passes_def minus_double_def abs_double_def less_double_def double_sub.simps
      double_abs.simps double_less.simps diverge_update_2 default_tol_value diverge_15) simp

lemma diverge_update_3:
  "gd_update (bowl_double 100000) (rnd (11 / 10)) (Finite (5810918952796161 / 34359738368)) =
      Finite (293019848802303 / 17179869184)"
  by (simp only: gd_update_def bowl_double_def minus_double_def times_double_def double_sub.simps
      double_mul.simps alpha_11_10 diverge_16 diverge_17 diverge_18 diverge_19)

lemma diverge_check_3:
  "check_passes (bowl_double 100000) (rnd (11 / 10)) (default_tol) (Finite (5810918952796161 /
      34359738368)) = False"
  by (simp only: check_passes_def minus_double_def abs_double_def less_double_def double_sub.simps
      double_abs.simps double_less.simps diverge_update_3 default_tol_value diverge_20) simp

lemma diverge_update_4:
  "gd_update (bowl_double 100000) (rnd (11 / 10)) (Finite (293019848802303 / 17179869184)) =
      Finite (6855894803834473 / 34359738368)"
  by (simp only: gd_update_def bowl_double_def minus_double_def times_double_def double_sub.simps
      double_mul.simps alpha_11_10 diverge_21 diverge_22 diverge_23 diverge_24)

lemma diverge_check_4:
  "check_passes (bowl_double 100000) (rnd (11 / 10)) (default_tol) (Finite (293019848802303 /
      17179869184)) = False"
  by (simp only: check_passes_def minus_double_def abs_double_def less_double_def double_sub.simps
      double_abs.simps double_less.simps diverge_update_4 default_tol_value diverge_25) simp

lemma diverge_update_5:
  "gd_update (bowl_double 100000) (rnd (11 / 10)) (Finite (6855894803834473 / 34359738368)) =
      Finite (- 83491415455171 / 4294967296)"
  by (simp only: gd_update_def bowl_double_def minus_double_def times_double_def double_sub.simps
      double_mul.simps alpha_11_10 diverge_26 diverge_27 diverge_28 diverge_29)

lemma diverge_check_5:
  "check_passes (bowl_double 100000) (rnd (11 / 10)) (default_tol) (Finite (6855894803834473 /
      34359738368)) = False"
  by (simp only: check_passes_def minus_double_def abs_double_def less_double_def double_sub.simps
      double_abs.simps double_less.simps diverge_update_5 default_tol_value diverge_30) simp

lemma diverge_run:
  "gradient_descent (bowl_double 100000) (Finite 60000) (rnd (11 / 10)) 6 default_tol
     True (Some recording) fresh =
   (Finite (- 83491415455171 / 4294967296),
    \<lparr>stdout = [Iter_line 0 (Finite 148000), Iter_line 1 (Finite (2913705813606399 /
        68719476736)), Iter_line 2 (Finite (5810918952796161 / 34359738368)), Iter_line 3 (Finite
        (293019848802303 / 17179869184)), Iter_line 4 (Finite (6855894803834473 / 34359738368)),
        Iter_line 5 (Finite (- 83491415455171 / 4294967296)), Reached_Max_Iters],
       caller = [Finite 148000, Finite (2913705813606399 / 68719476736), Finite (5810918952796161
           / 34359738368), Finite (293019848802303 / 17179869184), Finite (6855894803834473 /
           34359738368), Finite (- 83491415455171 / 4294967296)],
       evals = 6\<rparr>)"
  unfolding gradient_descent_def range_py_6
  by (simp only: gd_loop_Cons gd_loop.simps diverge_check_0 diverge_check_1 diverge_check_2
      diverge_check_3 diverge_check_4 diverge_check_5 diverge_update_0 diverge_update_1
      diverge_update_2 diverge_update_3 diverge_update_4 diverge_update_5
      if_False if_True option.case)
    (simp add: fresh_def recording_def)

lemma diverge_distances:
  "map (\<lambda>h. \<bar>h - Finite 100000\<bar>) [Finite 60000, Finite 148000, Finite
      (2913705813606399 / 68719476736), Finite (5810918952796161 / 34359738368), Finite
      (293019848802303 / 17179869184), Finite (6855894803834473 / 34359738368), Finite (-
      83491415455171 / 4294967296)] = [Finite 40000, Finite 48000, Finite (3958241859993601 /
      68719476736), Finite (2374945115996161 / 34359738368), Finite (1424967069597697 /
      17179869184), Finite (3419920967034473 / 34359738368), Finite (512988145055171 /
      4294967296)]"
  by (simp only: list.map minus_double_def abs_double_def double_sub.simps double_abs.simps
      diverge_1 diverge_6 diverge_11 diverge_16 diverge_21 diverge_26 diverge_31) simp

lemma diverge_steps:
  "map (\<lambda>(h, h_next). \<bar>h_next - h\<bar>) (zip [Finite 60000, Finite 148000, Finite
      (2913705813606399 / 68719476736), Finite (5810918952796161 / 34359738368), Finite
      (293019848802303 / 17179869184), Finite (6855894803834473 / 34359738368), Finite (-
      83491415455171 / 4294967296)] [Finite 148000, Finite (2913705813606399 / 68719476736),
      Finite (5810918952796161 / 34359738368), Finite (293019848802303 / 17179869184), Finite
      (6855894803834473 / 34359738368), Finite (- 83491415455171 / 4294967296)]) = [Finite 88000,
      Finite (7256776743321601 / 68719476736), Finite (8708132091985923 / 68719476736), Finite
      (5224879255191555 / 34359738368), Finite (6269855106229867 / 34359738368), Finite
      (7523826127475841 / 34359738368)]"
  by (simp only: zip.simps list.case list.map prod.case minus_double_def abs_double_def
      double_sub.simps double_abs.simps diverge_5 diverge_10 diverge_15 diverge_20 diverge_25
          diverge_30 zip_Cons_Cons zip_Nil) simp

lemma diverge_growth:
  "sorted_wrt (<) [Finite 40000, Finite 48000, Finite (3958241859993601 / 68719476736), Finite
      (2374945115996161 / 34359738368), Finite (1424967069597697 / 17179869184), Finite
      (3419920967034473 / 34359738368), Finite (512988145055171 / 4294967296)]" "sorted_wrt (<)
      [Finite 88000, Finite (7256776743321601 / 68719476736), Finite (8708132091985923 /
      68719476736), Finite (5224879255191555 / 34359738368), Finite (6269855106229867 /
      34359738368), Finite (7523826127475841 / 34359738368)]"
  by (simp_all add: less_double_def)

lemma diverge_magnitudes:
  "\<not> sorted_wrt (<) (map abs [Finite 60000, Finite 148000, Finite (2913705813606399 /
      68719476736), Finite (5810918952796161 / 34359738368), Finite (293019848802303 /
      17179869184), Finite (6855894803834473 / 34359738368), Finite (- 83491415455171 /
      4294967296)])"
  by (simp add: less_double_def abs_double_def)

subsection \<open>A start two units in the last place from the minimiser\<close>









subsection \<open>A run that overflows\<close>

text \<open>
  The same derivative and start with \<open>alpha = 1e308\<close>: the first candidate is
      \<open>+\<infinity>\<close>, the
  second \<open>\<infinity> - \<infinity>\<close>, that is NaN, and NaN stays. No comparison with
      NaN is true, so the
  check never passes.
\<close>

lemma overflow_product: "rnd
    (100000000000000001097906362944045541740492309677311846336810682903157585404911491537163328978494688899061249669721172515611590283743140088328307009198146046031271664502933027185697489699588559043338384466165001178426897626212945177628091195786707458122783970171784415105291802893207873272974885715430223118336
    * (- 80000)) = NInf"
  using rnd_overflow [of
      "100000000000000001097906362944045541740492309677311846336810682903157585404911491537163328978494688899061249669721172515611590283743140088328307009198146046031271664502933027185697489699588559043338384466165001178426897626212945177628091195786707458122783970171784415105291802893207873272974885715430223118336
      * (- 80000)"] by simp

lemma overflow_update_0:
  "gd_update (bowl_double 100000) (rnd (10 ^ 308)) (Finite 60000) = PInf"
  by (simp only: gd_update_def bowl_double_def minus_double_def times_double_def
      double_sub.simps double_mul.simps alpha_1e308 diverge_1 diverge_2 overflow_product)

lemma overflow_check_0:
  "check_passes (bowl_double 100000) (rnd (10 ^ 308)) default_tol (Finite 60000) = False"
  by (simp only: check_passes_def overflow_update_0 minus_double_def abs_double_def
      less_double_def double_sub.simps double_abs.simps double_less.simps default_tol_value)

lemma overflow_update_1:
  "gd_update (bowl_double 100000) (rnd (10 ^ 308)) PInf = NaN"
  by (simp only: alpha_1e308) (simp add: gd_update_def bowl_double_def minus_double_def
      times_double_def)

lemma overflow_check_1:
  "check_passes (bowl_double 100000) (rnd (10 ^ 308)) default_tol PInf = False"
  by (simp only: check_passes_def overflow_update_1 minus_double_def abs_double_def
      less_double_def double_sub.simps double_abs.simps double_less.simps)

lemma overflow_update_2:
  "gd_update (bowl_double 100000) (rnd (10 ^ 308)) NaN = NaN"
  by (simp only: alpha_1e308) (simp add: gd_update_def bowl_double_def minus_double_def
      times_double_def)

lemma overflow_check_2:
  "check_passes (bowl_double 100000) (rnd (10 ^ 308)) default_tol NaN = False"
  by (simp only: check_passes_def overflow_update_2 minus_double_def abs_double_def
      less_double_def double_sub.simps double_abs.simps double_less.simps)

lemma overflow_run:
  "gradient_descent (bowl_double 100000) (Finite 60000) (rnd (10 ^ 308)) 3 default_tol
     False (Some recording) fresh =
   (NaN, \<lparr>stdout = [], caller = [PInf, NaN, NaN], evals = 3\<rparr>)"
  unfolding gradient_descent_def range_py_3
  by (simp only: gd_loop_Cons gd_loop.simps overflow_check_0 overflow_check_1 overflow_check_2
      overflow_update_0 overflow_update_1 overflow_update_2 if_False option.case)
    (simp add: fresh_def recording_def)

section \<open>Totality\<close>

text \<open>
  With callables that do not raise, \<open>gradient_descent_exc\<close> returns, and returns what
  \<open>gradient_descent\<close> returns; an exception of the derivative or of the callback is the
  only way for it not to.
\<close>

lemma returning_callback_simps:
  "returning_callback None = None"
  "returning_callback (Some cb) = Some (\<lambda>x s. Inr (cb x s))"
  by (simp_all add: returning_callback_def)

lemma gd_loop_exc_returning:
  "gd_loop_exc (returning f) a t v (returning_callback cb) is h w = Inr (gd_loop f a t v cb is h w)"
proof (induction "is" arbitrary: h w)
  case Nil
  show ?case by simp
next
  case (Cons i rest)
  have f: "returning f h = Inr (f h)"
    by (simp add: returning_def)
  show ?case
  proof (cases cb)
    case None
    with Cons.IH show ?thesis
      by (simp add: f Let_def returning_callback_simps)
  next
    case (Some c)
    with Cons.IH show ?thesis
      by (simp add: f Let_def returning_callback_simps)
  qed
qed

lemma gradient_descent_exc_returning:
  "gradient_descent_exc (returning f) h_0 a m t v (returning_callback cb) w =
     Inr (gradient_descent f h_0 a m t v cb w)"
  by (simp add: gradient_descent_exc_def gradient_descent_def gd_loop_exc_returning
      split: prod.split)

lemma derivative_exception_leaves:
  assumes "0 < max_iter" and "f h_0 = Inl e"
  shows "gradient_descent_exc f h_0 a max_iter t v cb w = Inl e"
proof -
  from assms(1) have "range_py max_iter = 0 # [Suc 0..<nat max_iter]"
    by (simp add: range_py_def upt_conv_Cons)
  with assms(2) show ?thesis
    by (simp add: gradient_descent_exc_def)
qed

lemma callback_exception_leaves:
  assumes "0 < max_iter" and "f h_0 = Inr d" and "\<not> \<bar>(h_0 - a * d) - h_0\<bar> < t"
    and "cb (h_0 - a * d) (caller w) = Inl e"
  shows "gradient_descent_exc f h_0 a max_iter t v (Some cb) w = Inl e"
proof -
  from assms(1) have "range_py max_iter = 0 # [Suc 0..<nat max_iter]"
    by (simp add: range_py_def upt_conv_Cons)
  with assms(2,3,4) show ?thesis
    by (simp add: gradient_descent_exc_def Let_def)
qed

text \<open>
  C3. For every derivative that is a total function (and every callback that does not raise),
  every initial guess, step size, cap and tolerance, the call raises nothing: it returns
  after at most \<open>max_iter\<close> calls of the derivative. What it returns is fixed: with
      \<open>k\<close> the
  first index below \<open>max_iter\<close> at which the check passes, or \<open>max_iter\<close>
      when there is none,
  the \<open>k\<close>-th candidate, after \<open>k + 1\<close> calls of the derivative
      (\<open>max_iter\<close> calls when it ran
  to the cap). That is the last candidate adopted, whatever its magnitude: divergence is not
  an error. The numbers are of one type whose operations are total, as for the floats that
  the docstring names.
\<close>

theorem never_raises_bounded_work:
  "\<exists>k. k \<le> nat max_iter \<and>
       (\<forall>j<k. \<not> check_passes derivative_of_f alpha tol (candidate derivative_of_f
           alpha h_0 j)) \<and>
       (k < nat max_iter \<longrightarrow>
          check_passes derivative_of_f alpha tol (candidate derivative_of_f alpha h_0 k)) \<and>
       gradient_descent_exc (returning derivative_of_f) h_0 alpha max_iter tol verbose
           (returning_callback callback) w =
         Inr (gradient_descent derivative_of_f h_0 alpha max_iter tol verbose callback w) \<and>
       fst (gradient_descent derivative_of_f h_0 alpha max_iter tol verbose callback w) =
         candidate derivative_of_f alpha h_0 k \<and>
       evals (snd (gradient_descent derivative_of_f h_0 alpha max_iter tol verbose callback w)) =
         evals w + (if k < nat max_iter then Suc k else k) \<and>
       evals (snd (gradient_descent derivative_of_f h_0 alpha max_iter tol verbose callback w))
         \<le> evals w + nat max_iter"
proof -
  from stop_index_exists [of "nat max_iter" derivative_of_f alpha tol h_0]
  obtain k where k: "k \<le> nat max_iter"
      "\<forall>j<k. \<not> check_passes derivative_of_f alpha tol (candidate derivative_of_f
          alpha h_0 j)"
      "k < nat max_iter \<longrightarrow> check_passes derivative_of_f alpha tol (candidate
          derivative_of_f alpha h_0 k)"
    by blast
  note run = gradient_descent_run(1,2) [OF k, of verbose callback w]
  have "evals (snd (gradient_descent derivative_of_f h_0 alpha max_iter tol verbose callback w))
         \<le> evals w + nat max_iter"
    using k(1) by (simp add: run(2))
  with k run gradient_descent_exc_returning [of derivative_of_f h_0 alpha max_iter tol verbose
      callback w]
  show ?thesis
    by blast
qed

text \<open>
  On doubles, with step size \<open>1e308\<close>: the candidates are \<open>+\<infinity>\<close>,
      NaN, NaN, the call runs its
  three iterations and returns NaN.
\<close>

theorem never_raises_bounded_work_witness:
  "gradient_descent_exc (returning (bowl_double 100000)) (Finite 60000) (rnd (10 ^ 308)) 3
     default_tol False (returning_callback (Some recording)) fresh =
   (Inr (NaN, \<lparr>stdout = [], caller = [PInf, NaN, NaN], evals = 3\<rparr>) ::
      string + double \<times> (double, double list) world)"
proof -
  from never_raises_bounded_work [of 3 "bowl_double 100000" "rnd (10 ^ 308)" default_tol
      "Finite 60000" False "Some recording" fresh]
  have "gradient_descent_exc (returning (bowl_double 100000)) (Finite 60000) (rnd (10 ^ 308)) 3
     default_tol False (returning_callback (Some recording)) fresh =
     (Inr (gradient_descent (bowl_double 100000) (Finite 60000) (rnd (10 ^ 308)) 3 default_tol
        False (Some recording) fresh) :: string + double \<times> (double, double list) world)"
    by blast
  then show ?thesis
    by (simp only: overflow_run)
qed

section \<open>Starting where the tolerance is met\<close>

lemma start_where_check_passes:
  assumes "check_passes f a t x"
  shows "fst (gradient_descent f x a m t v cb w) = x"
    and "caller (snd (gradient_descent f x a m t v cb w)) = caller w"
    and "evals (snd (gradient_descent f x a m t v cb w)) = evals w + (if 0 < m then 1 else 0)"
proof -
  have "0 \<le> nat m"
    and "\<forall>j<0. \<not> check_passes f a t (candidate f a x j)"
    and "0 < nat m \<longrightarrow> check_passes f a t (candidate f a x 0)"
    using assms by (simp_all add: candidate_0)
  note run = gradient_descent_run [OF this, of v cb w]
  from run(1) show "fst (gradient_descent f x a m t v cb w) = x"
    by (simp add: candidate_0)
  from run(2) show "evals (snd (gradient_descent f x a m t v cb w)) =
      evals w + (if 0 < m then 1 else 0)"
    by simp
  from run(3) show "caller (snd (gradient_descent f x a m t v cb w)) = caller w"
    by (simp split: option.split)
qed

text \<open>
  C9 (as stated: if \<open>\<bar>alpha * derivative_of_f r\<bar> < tol\<close>, a call that starts
      from \<open>r\<close> returns
  \<open>r\<close>). On doubles the difference \<open>next - current\<close> that the check looks
      at is not
  \<open>alpha * derivative_of_f current\<close>: with derivative \<open>1.5\<close>, \<open>alpha
      = 1\<close>, \<open>tol = 1.75\<close> and
  \<open>r = 1e16\<close> the hypothesis holds (\<open>1.5 < 1.75\<close>), but
      \<open>next\<close> is \<open>r - 2\<close>, the check fails,
  and a call with a cap of \<open>3\<close> makes three updates and returns
      \<open>9999999999999994\<close>.
\<close>

theorem terminal_state_rounding_counterexample:
  "\<bar>Finite 1 * (\<lambda>h. Finite (3 / 2)) (Finite 10000000000000000)\<bar> < Finite (7 / 4)
      \<and>
   gradient_descent (\<lambda>h. Finite (3 / 2)) (Finite 10000000000000000) (Finite 1) 3 (Finite
       (7 / 4))
     False (Some recording) fresh =
   (Finite 9999999999999994,
    \<lparr>stdout = [],
       caller = [Finite 9999999999999998, Finite 9999999999999996, Finite 9999999999999994],
       evals = 3\<rparr>)"
proof -
  have "\<bar>Finite 1 * Finite (3 / 2)\<bar> < Finite (7 / 4)"
    by (simp only: times_double_def abs_double_def less_double_def double_mul.simps
        double_abs.simps double_less.simps stall_1)
  with stall_run show ?thesis
    by (simp only: simp_thms)
qed

text \<open>
  C9 (amended). If the check as the code computes it passes at \<open>r\<close>, that is
  \<open>\<bar>(r - alpha * derivative_of_f r) - r\<bar> < tol\<close>, a call that starts from
      \<open>r\<close> returns \<open>r\<close>: it
  makes no update, calls no callback, and stops on its first iteration after one call of the
  derivative (after none when \<open>max_iter \<le> 0\<close>). In particular, when a call was
      ended by the
  check, calling the function again from its result, with the same step size and tolerance,
  returns that result again. This holds for every numeric type.
\<close>

theorem terminal_state_idempotent:
  "(check_passes derivative_of_f alpha tol r \<longrightarrow>
      fst (gradient_descent derivative_of_f r alpha max_iter tol verbose callback w) = r \<and>
      caller (snd (gradient_descent derivative_of_f r alpha max_iter tol verbose callback w)) =
        caller w \<and>
      evals (snd (gradient_descent derivative_of_f r alpha max_iter tol verbose callback w)) =
        evals w + (if 0 < max_iter then 1 else 0)) \<and>
   (k < nat max_iter \<and>
    (\<forall>j<k. \<not> check_passes derivative_of_f alpha tol (candidate derivative_of_f alpha
        h_0 j)) \<and>
    check_passes derivative_of_f alpha tol (candidate derivative_of_f alpha h_0 k) \<longrightarrow>
      fst (gradient_descent derivative_of_f
             (fst (gradient_descent derivative_of_f h_0 alpha max_iter tol verbose callback w))
             alpha max_iter' tol verbose' callback' w') =
      fst (gradient_descent derivative_of_f h_0 alpha max_iter tol verbose callback w))"
proof (intro conjI impI)
  assume pass: "check_passes derivative_of_f alpha tol r"
  show "fst (gradient_descent derivative_of_f r alpha max_iter tol verbose callback w) = r"
    by (rule start_where_check_passes(1) [OF pass])
  show "caller (snd (gradient_descent derivative_of_f r alpha max_iter tol verbose callback w)) =
      caller w"
    by (rule start_where_check_passes(2) [OF pass])
  show "evals (snd (gradient_descent derivative_of_f r alpha max_iter tol verbose callback w)) =
      evals w + (if 0 < max_iter then 1 else 0)"
    by (rule start_where_check_passes(3) [OF pass])
next
  assume a: "k < nat max_iter \<and>
    (\<forall>j<k. \<not> check_passes derivative_of_f alpha tol (candidate derivative_of_f alpha
        h_0 j)) \<and>
    check_passes derivative_of_f alpha tol (candidate derivative_of_f alpha h_0 k)"
  then have "k \<le> nat max_iter"
    and "\<forall>j<k. \<not> check_passes derivative_of_f alpha tol (candidate derivative_of_f
        alpha h_0 j)"
    and "k < nat max_iter \<longrightarrow>
           check_passes derivative_of_f alpha tol (candidate derivative_of_f alpha h_0 k)"
    by simp_all
  from gradient_descent_run(1) [OF this, of verbose callback w]
  have out: "fst (gradient_descent derivative_of_f h_0 alpha max_iter tol verbose callback w) =
      candidate derivative_of_f alpha h_0 k" .
  from a have "check_passes derivative_of_f alpha tol (candidate derivative_of_f alpha h_0 k)"
    by simp
  from start_where_check_passes(1) [OF this, of max_iter' verbose' callback' w']
  show "fst (gradient_descent derivative_of_f
           (fst (gradient_descent derivative_of_f h_0 alpha max_iter tol verbose callback w))
           alpha max_iter' tol verbose' callback' w') =
    fst (gradient_descent derivative_of_f h_0 alpha max_iter tol verbose callback w)"
    by (simp only: out)
qed

theorem terminal_state_idempotent_witness:
  "check_passes (bowl_double 100000) (Finite (1 / 4)) (Finite 15000) (Finite 80000) \<and>
   fst (gradient_descent (bowl_double 100000) (Finite 60000) (Finite (1 / 4)) 10 (Finite 15000)
          False (Some recording) fresh) = Finite 80000 \<and>
   fst (gradient_descent (bowl_double 100000) (Finite 80000) (Finite (1 / 4)) 10 (Finite 15000)
          False (Some recording) fresh) = Finite 80000"
proof -
  have pass: "check_passes (bowl_double 100000) (Finite (1 / 4)) (Finite 15000) (Finite 80000)"
    by (simp only: quarter_check_1)
  have run: "fst (gradient_descent (bowl_double 100000) (Finite 60000) (Finite (1 / 4)) 10
      (Finite 15000) False (Some recording) fresh) = Finite 80000"
    by (simp only: quarter_run fst_conv)
  from terminal_state_idempotent [of "bowl_double 100000" "Finite (1 / 4)" "Finite 15000"
      "Finite 80000" 10 False "Some recording" fresh] pass
  have "fst (gradient_descent (bowl_double 100000) (Finite 80000) (Finite (1 / 4)) 10 (Finite 15000)
          False (Some recording) fresh) = Finite 80000"
    by blast
  with pass run show ?thesis
    by (simp only: simp_thms)
qed

section \<open>The quadratic bowl\<close>

subsection \<open>A fixed cap and small step sizes\<close>








subsection \<open>Step size 1.1\<close>

text \<open>
  C8 (as stated: the candidates grow in magnitude). On doubles, with the default tolerance,
  the candidates are \<open>148000\<close>, \<open>42399.999999999985\<close>,
      \<open>169120.00000000003\<close>,
  \<open>17055.99999999994\<close>, \<open>199532.80000000008\<close> and
      \<open>-19439.360000000102\<close>: they lie on
  alternating sides of \<open>100000\<close>, so their magnitudes go up and down, the second is
      smaller
  than the first, and the value returned is smaller in magnitude than the initial guess.
\<close>

theorem magnitudes_do_not_grow_counterexample:
  "caller (snd (gradient_descent (bowl_double 100000) (Finite 60000) (rnd (11 / 10)) 6 default_tol
                  True (Some recording) fresh)) = [Finite 148000, Finite (2913705813606399 /
                      68719476736), Finite (5810918952796161 / 34359738368), Finite
                      (293019848802303 / 17179869184), Finite (6855894803834473 / 34359738368),
                      Finite (- 83491415455171 / 4294967296)] \<and>
   \<not> sorted_wrt (<) (map abs [Finite 60000, Finite 148000, Finite (2913705813606399 /
       68719476736), Finite (5810918952796161 / 34359738368), Finite (293019848802303 /
       17179869184), Finite (6855894803834473 / 34359738368), Finite (- 83491415455171 /
       4294967296)]) \<and>
   \<bar>Finite (2913705813606399 / 68719476736)\<bar> < \<bar>Finite 148000\<bar> \<and>
   \<bar>Finite (- 83491415455171 / 4294967296)\<bar> < \<bar>Finite 60000\<bar>"
proof -
  have "caller (snd (gradient_descent (bowl_double 100000) (Finite 60000) (rnd (11 / 10)) 6
      default_tol True (Some recording) fresh)) = [Finite 148000, Finite (2913705813606399 /
          68719476736), Finite (5810918952796161 / 34359738368), Finite (293019848802303 /
          17179869184), Finite (6855894803834473 / 34359738368), Finite (- 83491415455171 /
          4294967296)]"
    by (simp only: diverge_run snd_conv world.simps)
  moreover have "\<bar>Finite (2913705813606399 / 68719476736)\<bar> < \<bar>Finite 148000\<bar>"
    by (simp add: less_double_def abs_double_def)
  moreover have "\<bar>Finite (- 83491415455171 / 4294967296)\<bar> < \<bar>Finite 60000\<bar>"
    by (simp add: less_double_def abs_double_def)
  ultimately show ?thesis
    using diverge_magnitudes by (simp only: simp_thms)
qed

text \<open>
  C8 (amended). With derivative \<open>2 * (h - 100000)\<close>, \<open>h_0 = 60000\<close>,
      \<open>alpha = 1.1\<close>, a cap of
  \<open>6\<close> and the default tolerance, the check passes on no iteration: all six iterations
      run,
  the candidates are the six above, and the last, \<open>-19439.360000000102\<close>, is returned.
      The
  candidates swing around \<open>100000\<close> with a growing swing: the distance from
      \<open>100000\<close>
  (\<open>40000\<close>, \<open>48000\<close>, \<open>57600.000000000015\<close>, ...,
      \<open>119439.3600000001\<close>) and the length of the
  step (\<open>88000\<close>, \<open>105600.00000000001\<close>, ...,
      \<open>218972.16000000018\<close>) grow strictly from each
  iteration to the next, while the magnitudes of the candidates do not. All values are the
  doubles the code computes.
\<close>

theorem divergence_scenario:
  "gradient_descent (bowl_double 100000) (Finite 60000) (rnd (11 / 10)) 6 default_tol
     True (Some recording) fresh =
   (Finite (- 83491415455171 / 4294967296),
    \<lparr>stdout = [Iter_line 0 (Finite 148000), Iter_line 1 (Finite (2913705813606399 /
        68719476736)), Iter_line 2 (Finite (5810918952796161 / 34359738368)), Iter_line 3 (Finite
        (293019848802303 / 17179869184)), Iter_line 4 (Finite (6855894803834473 / 34359738368)),
        Iter_line 5 (Finite (- 83491415455171 / 4294967296)), Reached_Max_Iters],
       caller = [Finite 148000, Finite (2913705813606399 / 68719476736), Finite (5810918952796161
           / 34359738368), Finite (293019848802303 / 17179869184), Finite (6855894803834473 /
           34359738368), Finite (- 83491415455171 / 4294967296)],
       evals = 6\<rparr>) \<and>
   map (\<lambda>h. \<bar>h - Finite 100000\<bar>) [Finite 60000, Finite 148000, Finite
       (2913705813606399 / 68719476736), Finite (5810918952796161 / 34359738368), Finite
       (293019848802303 / 17179869184), Finite (6855894803834473 / 34359738368), Finite (-
       83491415455171 / 4294967296)] = [Finite 40000, Finite 48000, Finite (3958241859993601 /
       68719476736), Finite (2374945115996161 / 34359738368), Finite (1424967069597697 /
       17179869184), Finite (3419920967034473 / 34359738368), Finite (512988145055171 /
       4294967296)] \<and>
   sorted_wrt (<) [Finite 40000, Finite 48000, Finite (3958241859993601 / 68719476736), Finite
       (2374945115996161 / 34359738368), Finite (1424967069597697 / 17179869184), Finite
       (3419920967034473 / 34359738368), Finite (512988145055171 / 4294967296)] \<and>
   map (\<lambda>(h, h_next). \<bar>h_next - h\<bar>) (zip [Finite 60000, Finite 148000, Finite
       (2913705813606399 / 68719476736), Finite (5810918952796161 / 34359738368), Finite
       (293019848802303 / 17179869184), Finite (6855894803834473 / 34359738368), Finite (-
       83491415455171 / 4294967296)] [Finite 148000, Finite (2913705813606399 / 68719476736),
       Finite (5810918952796161 / 34359738368), Finite (293019848802303 / 17179869184), Finite
       (6855894803834473 / 34359738368), Finite (- 83491415455171 / 4294967296)]) = [Finite 88000,
       Finite (7256776743321601 / 68719476736), Finite (8708132091985923 / 68719476736), Finite
       (5224879255191555 / 34359738368), Finite (6269855106229867 / 34359738368), Finite
       (7523826127475841 / 34359738368)] \<and>
   sorted_wrt (<) [Finite 88000, Finite (7256776743321601 / 68719476736), Finite (8708132091985923
       / 68719476736), Finite (5224879255191555 / 34359738368), Finite (6269855106229867 /
       34359738368), Finite (7523826127475841 / 34359738368)] \<and>
   \<not> sorted_wrt (<) (map abs [Finite 60000, Finite 148000, Finite (2913705813606399 /
       68719476736), Finite (5810918952796161 / 34359738368), Finite (293019848802303 /
       17179869184), Finite (6855894803834473 / 34359738368), Finite (- 83491415455171 /
       4294967296)])"
  using diverge_run diverge_distances diverge_steps diverge_growth diverge_magnitudes
  by (simp only: simp_thms)

end
